theory Spec2Isabelle
  imports Main "HOL-Library.Code_Target_Numeral" "HOL-Library.Sublist"
begin

section \<open>Exceptions and line streams\<close>

text \<open>
  The exceptions that can leave an expression of \<^verbatim>\<open>extract.py\<close>. A computation that may
  raise returns \<open>exn + 'a\<close>, with \<open>Inl\<close> for the exception.
\<close>

datatype exn =
    ValidationError
  | StopIteration
  | EOFError
  | AssertionError
  | IndexError
  | KeyError
  | TypeError
  | ReadError
  | UnboundLocalError

text \<open>
  An extracted member file is iterated line by line. The iterator ends either because the
  member is exhausted (\<open>next\<close> raises \<open>StopIteration\<close>) or because the compressed
  container ends before the member does (\<open>EOFError\<close>). Lines are modelled as decoded
  character strings; a line whose bytes do not decode is outside the model.
\<close>

datatype stream_end = Exhausted | Truncated

type_synonym stream = "string list \<times> stream_end"

fun end_exn :: "stream_end \<Rightarrow> exn" where
  "end_exn Exhausted = StopIteration"
| "end_exn Truncated = EOFError"

section \<open>Tokens and field grammars\<close>

text \<open>
  \<^verbatim>\<open>split = lambda x: x.decode().strip().split()\<close>: the maximal runs of non-whitespace
  characters of the line. A character of the model is a code point below 256, and
  \<open>is_space\<close> holds for those that \<open>str.split\<close> treats as whitespace. The second
  argument of \<open>split_acc\<close> is the token being read, reversed.
\<close>

definition is_space :: "char \<Rightarrow> bool" where
  "is_space c = (c \<in> set [CHR 0x09, CHR 0x0A, CHR 0x0B, CHR 0x0C, CHR 0x0D,
                           CHR 0x1C, CHR 0x1D, CHR 0x1E, CHR 0x1F, CHR 0x20,
                           CHR 0x85, CHR 0xA0])"

fun split_acc :: "string \<Rightarrow> string \<Rightarrow> string list" where
  "split_acc [] w = (if w = [] then [] else [rev w])"
| "split_acc (c # cs) w =
     (if is_space c then (if w = [] then split_acc cs [] else rev w # split_acc cs [])
      else split_acc cs (c # w))"

definition split :: "string \<Rightarrow> string list" where
  "split x = split_acc x []"

definition is_digit :: "char \<Rightarrow> bool" where
  "is_digit c = (c \<in> set ''0123456789'')"

definition digit_val :: "char \<Rightarrow> int" where
  "digit_val c = int (of_char c) - 48"

definition int_of_digits :: "string \<Rightarrow> int" where
  "int_of_digits s = foldl (\<lambda>a c. 10 * a + digit_val c) 0 s"

definition all_digits :: "string \<Rightarrow> bool" where
  "all_digits s = (s \<noteq> [] \<and> list_all is_digit s)"

text \<open>
  The validation library is not part of the sources. Its coercion of a token to an
  \<open>int\<close> field is modelled on decimal numerals with an optional sign; any other token
  fails validation in the model. The library accepts a few more spellings of a number
  (such as \<open>20.0\<close> or \<open>1_000\<close>); the general theorems below do not depend on which
  tokens the decoders accept, and the evaluated lines use plain numerals only.
\<close>

definition int_of_str :: "string \<Rightarrow> int option" where
  "int_of_str s =
     (case s of
        [] \<Rightarrow> None
      | c # cs \<Rightarrow>
          if c = CHR ''-'' then (if all_digits cs then Some (- int_of_digits cs) else None)
          else if c = CHR ''+'' then (if all_digits cs then Some (int_of_digits cs) else None)
          else if all_digits s then Some (int_of_digits s) else None)"

text \<open>\<^verbatim>\<open>Timestamp = Annotated[int, Field(ge=100000000, le=999999999)]\<close>\<close>

definition Timestamp :: "int \<Rightarrow> bool" where
  "Timestamp t = (100000000 \<le> t \<and> t \<le> 999999999)"

text \<open>\<^verbatim>\<open>Stage = Annotated[str, Field(pattern=r"^[0-9]+\/[0-9]+$")]\<close>\<close>

definition Stage :: "string \<Rightarrow> bool" where
  "Stage s =
     (takeWhile is_digit s \<noteq> [] \<and>
      (case dropWhile is_digit s of
         [] \<Rightarrow> False
       | c # r \<Rightarrow> c = CHR ''/'' \<and> all_digits r))"

text \<open>\<^verbatim>\<open>Card = Annotated[str, Field(pattern=r"^[1-9,TJQKA][schd]$")]\<close>; the comma is a
  member of the character class.\<close>

definition Card :: "string \<Rightarrow> bool" where
  "Card s =
     (case s of
        [r, u] \<Rightarrow> r \<in> set ''123456789,TJQKA'' \<and> u \<in> set ''schd''
      | _ \<Rightarrow> False)"

text \<open>\<^verbatim>\<open>Action = Annotated[str, Field(pattern=r"^[BfkbcrAQK-]+$")]\<close>\<close>

definition Action :: "string \<Rightarrow> bool" where
  "Action s = (s \<noteq> [] \<and> list_all (\<lambda>c. c \<in> set ''BfkbcrAQK-'') s)"

text \<open>The value of an optional positional field: present when the line has that many tokens.\<close>

definition nth_opt :: "'a list \<Rightarrow> nat \<Rightarrow> 'a option" where
  "nth_opt xs i = (if i < length xs then Some (xs ! i) else None)"

text \<open>\<^verbatim>\<open>[c for c in cards if c is not None]\<close>\<close>

fun not_none :: "'a option list \<Rightarrow> 'a list" where
  "not_none [] = []"
| "not_none (None # xs) = not_none xs"
| "not_none (Some x # xs) = x # not_none xs"

section \<open>The three record kinds\<close>

text \<open>
  The fields of the three classes share names (\<open>timestamp\<close>, \<open>num_players\<close>, ...); the
  selectors carry the class as a prefix: \<open>hdb_\<close>, \<open>hr_\<close>, \<open>pdb_\<close>.
\<close>

record HdbRecord =
  hdb_timestamp :: int
  hdb_dealer :: int
  hdb_hand_num :: int
  hdb_num_players :: int
  hdb_flop :: string
  hdb_turn :: string
  hdb_river :: string
  hdb_showdown :: string
  hdb_card1 :: "string option"
  hdb_card2 :: "string option"
  hdb_card3 :: "string option"
  hdb_card4 :: "string option"
  hdb_card5 :: "string option"

record HrosterRecord =
  hr_timestamp :: int
  hr_num_players :: int
  hr_players :: "string list"

record PdbRecord =
  pdb_player :: string
  pdb_timestamp :: int
  pdb_num_players :: int
  pdb_position :: int
  pdb_preflop :: string
  pdb_flop :: string
  pdb_turn :: string
  pdb_river :: string
  pdb_bankroll :: int
  pdb_total_bet :: int
  pdb_total_win :: int
  pdb_card1 :: "string option"
  pdb_card2 :: "string option"

text \<open>
  \<^verbatim>\<open>HdbRecord.__init__(self, *args)\<close> pairs the thirteen field names with the tokens
  (\<open>zip\<close> drops what exceeds the shorter list) and validates: the first eight fields are
  required, the five cards optional.
\<close>

definition HdbRecord_init :: "string list \<Rightarrow> exn + HdbRecord" where
  "HdbRecord_init args =
     (case args of
        ts # d # h # n # f # t # r # s # rest \<Rightarrow>
          (case (int_of_str ts, int_of_str d, int_of_str h, int_of_str n) of
             (Some ts', Some d', Some h', Some n') \<Rightarrow>
               if Timestamp ts' \<and> Stage f \<and> Stage t \<and> Stage r \<and> Stage s \<and>
                  list_all Card (take 5 rest)
               then Inr \<lparr> hdb_timestamp = ts', hdb_dealer = d', hdb_hand_num = h',
                          hdb_num_players = n', hdb_flop = f, hdb_turn = t, hdb_river = r,
                          hdb_showdown = s,
                          hdb_card1 = nth_opt rest 0, hdb_card2 = nth_opt rest 1,
                          hdb_card3 = nth_opt rest 2, hdb_card4 = nth_opt rest 3,
                          hdb_card5 = nth_opt rest 4 \<rparr>
               else Inl ValidationError
           | _ \<Rightarrow> Inl ValidationError)
      | _ \<Rightarrow> Inl ValidationError)"

text \<open>
  \<^verbatim>\<open>HrosterRecord.__init__\<close> reads \<open>args[0]\<close> and \<open>args[1]\<close> before validation: a line
  of fewer than two tokens raises \<open>IndexError\<close>. The length of \<open>players\<close> is not compared
  with \<open>num_players\<close>.
\<close>

definition HrosterRecord_init :: "string list \<Rightarrow> exn + HrosterRecord" where
  "HrosterRecord_init args =
     (case args of
        ts # n # ps \<Rightarrow>
          (case (int_of_str ts, int_of_str n) of
             (Some ts', Some n') \<Rightarrow>
               if Timestamp ts'
               then Inr \<lparr> hr_timestamp = ts', hr_num_players = n', hr_players = ps \<rparr>
               else Inl ValidationError
           | _ \<Rightarrow> Inl ValidationError)
      | _ \<Rightarrow> Inl IndexError)"

definition PdbRecord_init :: "string list \<Rightarrow> exn + PdbRecord" where
  "PdbRecord_init args =
     (case args of
        p # ts # n # pos # a1 # a2 # a3 # a4 # b # tb # tw # rest \<Rightarrow>
          (case (int_of_str ts, int_of_str n, int_of_str pos,
                 int_of_str b, int_of_str tb, int_of_str tw) of
             (Some ts', Some n', Some pos', Some b', Some tb', Some tw') \<Rightarrow>
               if Timestamp ts' \<and> Action a1 \<and> Action a2 \<and> Action a3 \<and> Action a4 \<and>
                  list_all Card (take 2 rest)
               then Inr \<lparr> pdb_player = p, pdb_timestamp = ts', pdb_num_players = n',
                          pdb_position = pos', pdb_preflop = a1, pdb_flop = a2,
                          pdb_turn = a3, pdb_river = a4, pdb_bankroll = b',
                          pdb_total_bet = tb', pdb_total_win = tw',
                          pdb_card1 = nth_opt rest 0, pdb_card2 = nth_opt rest 1 \<rparr>
               else Inl ValidationError
           | _ \<Rightarrow> Inl ValidationError)
      | _ \<Rightarrow> Inl ValidationError)"

text \<open>The three decoders as the merge calls them: \<^verbatim>\<open>Rec(*[s for s in split(line) if s])\<close>.\<close>

definition decode_hdb :: "string \<Rightarrow> exn + HdbRecord" where
  "decode_hdb line = HdbRecord_init (filter (\<lambda>s. s \<noteq> []) (split line))"

definition decode_hroster :: "string \<Rightarrow> exn + HrosterRecord" where
  "decode_hroster line = HrosterRecord_init (filter (\<lambda>s. s \<noteq> []) (split line))"

definition decode_pdb :: "string \<Rightarrow> exn + PdbRecord" where
  "decode_pdb line = PdbRecord_init (filter (\<lambda>s. s \<noteq> []) (split line))"

section \<open>Derived properties and the output records\<close>

record Pot =
  pot_num_players :: int
  pot_stage :: string
  pot_size :: int

record Bet =
  actions :: string
  stage :: string

record ParticipantRecord =
  total_bet :: int
  bankroll :: int
  bets :: "Bet list"
  pocket_cards :: "string list"
  position :: int
  total_win :: int

record EventRecord =
  hand_id :: string
  board :: "string list"
  dealer :: int
  game :: string
  hand_num :: int
  num_players :: int
  players :: "(string \<times> ParticipantRecord) list"
  pots :: "Pot list"

definition hdb_cards :: "HdbRecord \<Rightarrow> string list" where
  "hdb_cards r = not_none [hdb_card1 r, hdb_card2 r, hdb_card3 r, hdb_card4 r, hdb_card5 r]"

text \<open>
  \<^verbatim>\<open>n, s = getattr(self, stage).split("/")\<close> on a validated stage field: the digits
  before and after the only slash.
\<close>

definition pot_of :: "string \<Rightarrow> string \<Rightarrow> Pot" where
  "pot_of stage_name v =
     \<lparr> pot_num_players = int_of_digits (takeWhile (\<lambda>c. c \<noteq> CHR ''/'') v),
       pot_stage = take 1 stage_name,
       pot_size = int_of_digits (drop 1 (dropWhile (\<lambda>c. c \<noteq> CHR ''/'') v)) \<rparr>"

definition hdb_pots :: "HdbRecord \<Rightarrow> Pot list" where
  "hdb_pots r = [pot_of ''flop'' (hdb_flop r), pot_of ''turn'' (hdb_turn r),
                 pot_of ''river'' (hdb_river r), pot_of ''showdown'' (hdb_showdown r)]"

definition pdb_cards :: "PdbRecord \<Rightarrow> string list" where
  "pdb_cards r = not_none [pdb_card1 r, pdb_card2 r]"

definition pdb_bets :: "PdbRecord \<Rightarrow> Bet list" where
  "pdb_bets r = [\<lparr> actions = pdb_preflop r, stage = take 1 ''preflop'' \<rparr>,
                 \<lparr> actions = pdb_flop r, stage = take 1 ''flop'' \<rparr>,
                 \<lparr> actions = pdb_turn r, stage = take 1 ''turn'' \<rparr>,
                 \<lparr> actions = pdb_river r, stage = take 1 ''river'' \<rparr>]"

section \<open>String helpers of the standard library\<close>

text \<open>\<^verbatim>\<open>str(n)\<close> for an integer.\<close>

definition digit_char :: "nat \<Rightarrow> char" where
  "digit_char d = char_of (48 + d)"

fun str_nat :: "nat \<Rightarrow> string" where
  "str_nat n = (if n < 10 then [digit_char n] else str_nat (n div 10) @ [digit_char (n mod 10)])"

declare str_nat.simps [simp del]

definition str_int :: "int \<Rightarrow> string" where
  "str_int i = (if i < 0 then CHR ''-'' # str_nat (nat (- i)) else str_nat (nat i))"

text \<open>\<^verbatim>\<open>s.replace(old, new)\<close> for a one-character \<open>old\<close>.\<close>

definition replace_char :: "char \<Rightarrow> string \<Rightarrow> string \<Rightarrow> string" where
  "replace_char old new s = concat (map (\<lambda>c. if c = old then new else [c]) s)"

definition endswith :: "string \<Rightarrow> string \<Rightarrow> bool" where
  "endswith s suf = (length suf \<le> length s \<and> drop (length s - length suf) s = suf)"

text \<open>
  \<^verbatim>\<open>s.split(d)[-1]\<close> guarded by \<^verbatim>\<open>d in s\<close>: the text after the last occurrence of \<open>d\<close>
  found by the left-to-right scan for non-overlapping occurrences; \<open>None\<close> when \<open>d\<close> does
  not occur. \<open>skip\<close> counts the characters of the current occurrence still to pass.
\<close>

fun split_last :: "string \<Rightarrow> string \<Rightarrow> nat \<Rightarrow> string option \<Rightarrow> string option" where
  "split_last d [] skip res = res"
| "split_last d (c # cs) skip res =
     (if skip = 0 \<and> take (length d) (c # cs) = d
      then split_last d cs (length d - 1) (Some (drop (length d) (c # cs)))
      else split_last d cs (skip - 1) res)"

text \<open>A \<open>dict\<close> whose iteration order matters: assignment to a present key keeps its place.\<close>

fun dict_set :: "'k \<Rightarrow> 'v \<Rightarrow> ('k \<times> 'v) list \<Rightarrow> ('k \<times> 'v) list" where
  "dict_set k v [] = [(k, v)]"
| "dict_set k v (kv # d) = (if fst kv = k then (k, v) # d else kv # dict_set k v d)"

section \<open>The synchronised merge of one group\<close>

text \<open>
  The state of the merge besides the primary stream and the result list: the roster
  iterator, the current record of every participant (\<open>pdb\<close>) and the participants'
  iterators (\<open>iter_pdb\<close>).
\<close>

record merge_state =
  iter_hroster :: stream
  pdb :: "string \<rightharpoonup> PdbRecord"
  iter_pdb :: "string \<rightharpoonup> stream"

text \<open>
  Lines 416--419: read roster lines until one has a timestamp at or after the primary's.
  At least one line is read. A line that raises leaves the loop with the exception; the
  line is consumed.
\<close>

fun read_hroster :: "int \<Rightarrow> string list \<Rightarrow> stream_end \<Rightarrow> (exn + HrosterRecord) \<times> string list" where
  "read_hroster ts [] e = (Inl (end_exn e), [])"
| "read_hroster ts (l # ls) e =
     (case decode_hroster l of
        Inl x \<Rightarrow> (Inl x, ls)
      | Inr r \<Rightarrow> if hr_timestamp r \<ge> ts then (Inr r, ls) else read_hroster ts ls e)"

text \<open>
  Lines 434--435: \<^verbatim>\<open>while pdb[player].timestamp < hdb.timestamp: pdb[player] = PdbRecord(...)\<close>.
  The result is the exception that left the loop (if any), the current record and the
  lines not yet read. A line that fails to decode is consumed and the current record stays.
\<close>

fun advance_lines :: "int \<Rightarrow> PdbRecord \<Rightarrow> string list \<Rightarrow> stream_end \<Rightarrow> exn option \<times> PdbRecord \<times> string list" where
  "advance_lines ts cur [] e =
     (if pdb_timestamp cur < ts then (Some (end_exn e), cur, []) else (None, cur, []))"
| "advance_lines ts cur (l # ls) e =
     (if pdb_timestamp cur < ts
      then (case decode_pdb l of
              Inl x \<Rightarrow> (Some x, cur, ls)
            | Inr r \<Rightarrow> advance_lines ts r ls e)
      else (None, cur, l # ls))"

definition advance_pdb :: "int \<Rightarrow> PdbRecord \<Rightarrow> stream option \<Rightarrow> exn option \<times> PdbRecord \<times> stream option" where
  "advance_pdb ts cur it =
     (case it of
        Some (ls, e) \<Rightarrow>
          (case advance_lines ts cur ls e of (x, cur', ls') \<Rightarrow> (x, cur', Some (ls', e)))
      | None \<Rightarrow> (if pdb_timestamp cur < ts then Some KeyError else None, cur, None))"

text \<open>
  Lines 428--441, the loop over \<open>hroster.players\<close>: \<open>Missing\<close> is \<open>pdb_missing = True; break\<close>,
  \<open>Matched\<close> carries \<open>pdb_curr\<close> in insertion order.
\<close>

datatype players_outcome = Raised exn | Missing | Matched "(string \<times> PdbRecord) list"

fun match_players :: "int \<Rightarrow> string list \<Rightarrow> merge_state \<Rightarrow> (string \<times> PdbRecord) list
    \<Rightarrow> players_outcome \<times> merge_state" where
  "match_players ts [] st pdb_curr = (Matched pdb_curr, st)"
| "match_players ts (player # ps) st pdb_curr =
     (case pdb st player of
        None \<Rightarrow> (Missing, st)
      | Some cur \<Rightarrow>
          (case advance_pdb ts cur (iter_pdb st player) of
             (x, cur', it') \<Rightarrow>
               let st' = st\<lparr> pdb := (pdb st)(player \<mapsto> cur'),
                              iter_pdb := (iter_pdb st)(player := it') \<rparr>
               in (case x of
                     Some ex \<Rightarrow> (Raised ex, st')
                   | None \<Rightarrow>
                       if pdb_timestamp cur' > ts then (Missing, st')
                       else match_players ts ps st' (dict_set player cur' pdb_curr))))"

definition player_entry :: "PdbRecord \<Rightarrow> ParticipantRecord" where
  "player_entry v =
     \<lparr> total_bet = pdb_total_bet v, bankroll = pdb_bankroll v, bets = pdb_bets v,
       pocket_cards = pdb_cards v, position = pdb_position v, total_win = pdb_total_win v \<rparr>"

text \<open>\<^verbatim>\<open>_id = f"{folder_group}{SLASH}{hdb.timestamp}".replace(SLASH, "_")\<close>\<close>

definition make_id :: "char \<Rightarrow> string \<Rightarrow> int \<Rightarrow> string" where
  "make_id sl folder_group ts = replace_char sl ''_'' (folder_group @ [sl] @ str_int ts)"

definition make_hand :: "char \<Rightarrow> string \<Rightarrow> string \<Rightarrow> HdbRecord \<Rightarrow> (string \<times> PdbRecord) list
    \<Rightarrow> EventRecord" where
  "make_hand sl folder_group game_type hdb pdb_curr =
     \<lparr> hand_id = make_id sl folder_group (hdb_timestamp hdb),
       board = hdb_cards hdb,
       dealer = hdb_dealer hdb,
       game = game_type,
       hand_num = hdb_hand_num hdb,
       num_players = hdb_num_players hdb,
       players = map (\<lambda>(k, v). (k, player_entry v)) pdb_curr,
       pots = hdb_pots hdb \<rparr>"

text \<open>
  One pass through the body of the inner \<^verbatim>\<open>try\<close> (lines 415--468) for a primary line
  already read: it raises, reaches a \<^verbatim>\<open>continue\<close>, or appends one hand.
\<close>

datatype step_outcome = Raise exn | Continue | Append EventRecord

definition merge_step :: "char \<Rightarrow> string \<Rightarrow> string \<Rightarrow> string \<Rightarrow> merge_state
    \<Rightarrow> step_outcome \<times> merge_state" where
  "merge_step sl folder_group game_type line st =
     (case decode_hdb line of
        Inl x \<Rightarrow> (Raise x, st)
      | Inr hdb \<Rightarrow>
          (case read_hroster (hdb_timestamp hdb) (fst (iter_hroster st)) (snd (iter_hroster st)) of
             (r, ls') \<Rightarrow>
               let st1 = st\<lparr> iter_hroster := (ls', snd (iter_hroster st)) \<rparr>
               in (case r of
                     Inl x \<Rightarrow> (Raise x, st1)
                   | Inr hroster \<Rightarrow>
                       if hdb_timestamp hdb < hr_timestamp hroster then (Continue, st1)
                       else if hdb_timestamp hdb \<noteq> hr_timestamp hroster then (Raise AssertionError, st1)
                       else if hdb_num_players hdb \<noteq> hr_num_players hroster then (Raise AssertionError, st1)
                       else
                         (case match_players (hdb_timestamp hdb) (hr_players hroster) st1 [] of
                            (Raised x, st2) \<Rightarrow> (Raise x, st2)
                          | (Missing, st2) \<Rightarrow> (Continue, st2)
                          | (Matched pdb_curr, st2) \<Rightarrow>
                              if length (hr_players hroster) \<noteq> length pdb_curr
                              then (Raise AssertionError, st2)
                              else if \<not> list_all (\<lambda>kv. pdb_timestamp (snd kv) = hdb_timestamp hdb) pdb_curr
                              then (Raise AssertionError, st2)
                              else (Append (make_hand sl folder_group game_type hdb pdb_curr), st2)))))"

text \<open>
  Lines 413--470, \<^verbatim>\<open>while True\<close>: reading past the end of the primary stream raises; the
  inner handler catches \<open>ValidationError\<close> only and continues with the next primary
  line; every other exception leaves the loop. The result is the exception that ended the
  loop and \<open>hands\<close> at that moment.
\<close>

fun merge_loop :: "char \<Rightarrow> string \<Rightarrow> string \<Rightarrow> string list \<Rightarrow> stream_end \<Rightarrow> merge_state
    \<Rightarrow> EventRecord list \<Rightarrow> exn \<times> EventRecord list" where
  "merge_loop sl folder_group game_type [] e st hands = (end_exn e, hands)"
| "merge_loop sl folder_group game_type (l # ls) e st hands =
     (case merge_step sl folder_group game_type l st of
        (Raise x, st') \<Rightarrow>
          if x = ValidationError then merge_loop sl folder_group game_type ls e st' hands
          else (x, hands)
      | (Continue, st') \<Rightarrow> merge_loop sl folder_group game_type ls e st' hands
      | (Append hand, st') \<Rightarrow> merge_loop sl folder_group game_type ls e st' (hands @ [hand]))"

section \<open>The group extractor\<close>

definition VALID_GAME_TYPES :: "string list" where
  "VALID_GAME_TYPES = [''holdem'', ''holdem1'', ''holdem2'', ''holdem3'', ''holdemii'',
                       ''holdempot'', ''nolimit'', ''tourney'']"

text \<open>\<^verbatim>\<open>SLASH = "\\" if system == "Windows" else "/"\<close>; \<open>system\<close> comes from a module that
  is not part of the sources and is a parameter here.\<close>

definition SLASH :: "string \<Rightarrow> char" where
  "SLASH system = (if system = ''Windows'' then CHR 0x5C else CHR ''/'')"

text \<open>
  An opened tar archive is the list of its members in archive order, each with what
  \<open>extractfile\<close> returns for it: \<open>None\<close> for a member that is not a regular file, the
  content otherwise. A member of the nested archive is a line stream; a member of the
  top-level archive is a nested archive, or a file that \<^verbatim>\<open>TarFile.open\<close> cannot read.
  A name that occurs several times denotes its last member, and a name that does not
  occur raises \<open>KeyError\<close>.
\<close>

type_synonym tar_group = "(string \<times> stream option) list"

datatype group_file = NotATar | Tar tar_group

type_synonym archive = "(string \<times> group_file option) list"

definition getnames :: "(string \<times> 'a) list \<Rightarrow> string list" where
  "getnames tar = map fst tar"

definition extractfile :: "(string \<times> 'a option) list \<Rightarrow> string \<Rightarrow> exn + 'a option" where
  "extractfile tar name = (case map_of (rev tar) name of None \<Rightarrow> Inl KeyError | Some f \<Rightarrow> Inr f)"

text \<open>\<^verbatim>\<open>name_group.rsplit(SLASH, 1)\<close>\<close>

definition rsplit1 :: "char \<Rightarrow> string \<Rightarrow> string list" where
  "rsplit1 sep s =
     (if sep \<in> set s
      then [rev (drop 1 (dropWhile (\<lambda>c. c \<noteq> sep) (rev s))), rev (takeWhile (\<lambda>c. c \<noteq> sep) (rev s))]
      else [s])"

text \<open>\<^verbatim>\<open>s.rstrip(chars)\<close> removes every trailing character that is a member of \<open>chars\<close>.\<close>

definition rstrip :: "string \<Rightarrow> string \<Rightarrow> string" where
  "rstrip chars s = rev (dropWhile (\<lambda>c. c \<in> set chars) (rev s))"

text \<open>
  Lines 397--407: the participants' files, keyed by the text after \<^verbatim>\<open>pdb/pdb.\<close> in the
  member's name. \<open>iter(None)\<close> raises \<open>TypeError\<close>.
\<close>

fun open_pdb :: "string \<Rightarrow> tar_group \<Rightarrow> string list \<Rightarrow> (string \<times> stream) list
    \<Rightarrow> exn + (string \<times> stream) list" where
  "open_pdb delimiter tar [] items = Inr items"
| "open_pdb delimiter tar (fname # fs) items =
     (case split_last delimiter fname 0 None of
        None \<Rightarrow> open_pdb delimiter tar fs items
      | Some player \<Rightarrow>
          (case extractfile tar fname of
             Inl x \<Rightarrow> Inl x
           | Inr None \<Rightarrow> Inl TypeError
           | Inr (Some f) \<Rightarrow> open_pdb delimiter tar fs (dict_set player f items)))"

text \<open>
  Line 412: \<^verbatim>\<open>pdb = {k: PdbRecord(...next(v)...) for k, v in iter_pdb.items()}\<close>, the first
  record of every participant, read in the order of the dictionary. The result is the
  pair of \<open>pdb\<close> and the iterators after the read.
\<close>

fun first_records :: "(string \<times> stream) list \<Rightarrow> (string \<rightharpoonup> PdbRecord) \<Rightarrow> (string \<rightharpoonup> stream)
    \<Rightarrow> exn + (string \<rightharpoonup> PdbRecord) \<times> (string \<rightharpoonup> stream)" where
  "first_records [] pdb0 it = Inr (pdb0, it)"
| "first_records ((k, v) # rest) pdb0 it =
     (case fst v of
        [] \<Rightarrow> Inl (end_exn (snd v))
      | l # ls \<Rightarrow>
          (case decode_pdb l of
             Inl x \<Rightarrow> Inl x
           | Inr r \<Rightarrow> first_records rest (pdb0(k \<mapsto> r)) (it(k \<mapsto> (ls, snd v)))))"

text \<open>
  How the body of the outer \<^verbatim>\<open>try\<close> (lines 376--470) is left: by an exception or by one
  of its \<^verbatim>\<open>return []\<close>; the loop has no normal exit. The second component of \<open>try_body\<close>
  is the variable \<open>hands\<close> at that moment.
\<close>

datatype body_outcome = Raises exn | Returns "EventRecord list" | Completes

definition try_body :: "char \<Rightarrow> string \<Rightarrow> string \<Rightarrow> tar_group \<Rightarrow> body_outcome \<times> EventRecord list" where
  "try_body sl folder_group game_type tar_group =
     (case extractfile tar_group (folder_group @ [sl] @ ''hdb'') of
        Inl x \<Rightarrow> (Raises x, [])
      | Inr None \<Rightarrow> (Returns [], [])
      | Inr (Some file_hdb) \<Rightarrow>
          (case extractfile tar_group (folder_group @ [sl] @ ''hroster'') of
             Inl x \<Rightarrow> (Raises x, [])
           | Inr None \<Rightarrow> (Returns [], [])
           | Inr (Some file_hroster) \<Rightarrow>
               (case open_pdb (''pdb'' @ [sl] @ ''pdb.'') tar_group (getnames tar_group) [] of
                  Inl x \<Rightarrow> (Raises x, [])
                | Inr items \<Rightarrow>
                    (case first_records items Map.empty Map.empty of
                       Inl x \<Rightarrow> (Raises x, [])
                     | Inr (pdb0, it0) \<Rightarrow>
                         (case merge_loop sl folder_group game_type (fst file_hdb) (snd file_hdb)
                                 \<lparr> iter_hroster = file_hroster, pdb = pdb0, iter_pdb = it0 \<rparr> [] of
                            (x, hands) \<Rightarrow> (Raises x, hands))))))"

text \<open>
  Lines 471--474: \<^verbatim>\<open>except EOFError\<close> logs, \<^verbatim>\<open>except StopIteration\<close> passes; any other
  exception stays pending.
\<close>

definition except_clauses :: "body_outcome \<Rightarrow> body_outcome" where
  "except_clauses out =
     (case out of
        Raises x \<Rightarrow> if x = EOFError \<or> x = StopIteration then Completes else Raises x
      | _ \<Rightarrow> out)"

text \<open>
  Lines 475--480: the \<^verbatim>\<open>finally\<close> clause closes the files and executes \<^verbatim>\<open>return hands\<close>,
  which discards a pending exception or return value.
\<close>

definition finally_return :: "body_outcome \<Rightarrow> EventRecord list \<Rightarrow> exn + EventRecord list" where
  "finally_return pending hands = Inr hands"

definition extract_phase :: "char \<Rightarrow> string \<Rightarrow> string \<Rightarrow> tar_group \<Rightarrow> exn + EventRecord list" where
  "extract_phase sl folder_group game_type tar_group =
     (case try_body sl folder_group game_type tar_group of
        (out, hands) \<Rightarrow> finally_return (except_clauses out) hands)"

text \<open>
  \<^verbatim>\<open>_extract_single_group(name_group, fname_in)\<close>. \<open>fname_in\<close> is the top-level archive as
  \<^verbatim>\<open>TarFile.open\<close> finds it, \<open>None\<close> when it cannot be opened. When \<open>name_group\<close> has no
  separator, line 360 logs and \<open>fname_group\<close> stays unassigned, so that line 363 raises.
\<close>

definition extract_single_group :: "string \<Rightarrow> string \<Rightarrow> archive option \<Rightarrow> exn + EventRecord list" where
  "extract_single_group system name_group fname_in =
     (case fname_in of
        None \<Rightarrow> Inl ReadError
      | Some tar_in \<Rightarrow>
          if \<not> endswith name_group ''.tgz'' then Inr []
          else
            let parts = rsplit1 (SLASH system) name_group;
                fname_group = (if length parts < 2 then None else Some (parts ! 1))
            in (case fname_group of
                  None \<Rightarrow> Inl UnboundLocalError
                | Some fname_group \<Rightarrow>
                    let game_type = takeWhile (\<lambda>c. c \<noteq> CHR ''.'') fname_group
                    in if game_type \<notin> set VALID_GAME_TYPES then Inr []
                       else
                         let folder_group =
                               replace_char (CHR ''.'') [SLASH system] (rstrip ''.tgz'' fname_group)
                         in (case extractfile tar_in name_group of
                               Inl x \<Rightarrow> Inl x
                             | Inr None \<Rightarrow> Inr []
                             | Inr (Some NotATar) \<Rightarrow> Inl ReadError
                             | Inr (Some (Tar tar_group)) \<Rightarrow>
                                 extract_phase (SLASH system) folder_group game_type tar_group)))"

text \<open>
  \<^verbatim>\<open>__iter__\<close> without an output file: every member name of the top-level archive goes
  through \<open>extract_single_group\<close>, and \<open>imap\<close> hands the results over in the order of
  the names; an exception of a worker is raised again when its result is reached. The
  result is the pending exception, if any, and the hands yielded before it.
\<close>

fun imap_groups :: "string \<Rightarrow> archive option \<Rightarrow> string list \<Rightarrow> exn option \<times> EventRecord list" where
  "imap_groups system fname_in [] = (None, [])"
| "imap_groups system fname_in (name_group # names) =
     (case extract_single_group system name_group fname_in of
        Inl x \<Rightarrow> (Some x, [])
      | Inr hands_group \<Rightarrow>
          (case imap_groups system fname_in names of
             (x, rest) \<Rightarrow> (x, hands_group @ rest)))"

definition iter_hands :: "string \<Rightarrow> archive option \<Rightarrow> exn option \<times> EventRecord list" where
  "iter_hands system fname_in =
     (case fname_in of
        None \<Rightarrow> (Some ReadError, [])
      | Some tar_in \<Rightarrow> imap_groups system fname_in (getnames tar_in))"

section \<open>Observations on the output\<close>

text \<open>
  An emitted record carries the primary record's timestamp as the decimal numeral that
  ends its \<open>hand_id\<close>; \<open>hand_timestamp\<close> reads it back.
\<close>

definition hand_timestamp :: "EventRecord \<Rightarrow> int" where
  "hand_timestamp h = int_of_digits (rev (takeWhile is_digit (rev (hand_id h))))"

text \<open>The timestamps of the lines of a primary stream that decode, in stream order.\<close>

fun hdb_timestamps :: "string list \<Rightarrow> int list" where
  "hdb_timestamps [] = []"
| "hdb_timestamps (l # ls) =
     (case decode_hdb l of
        Inl x \<Rightarrow> hdb_timestamps ls
      | Inr r \<Rightarrow> hdb_timestamp r # hdb_timestamps ls)"

text \<open>
  The participants' part of a merge state comes from the files \<open>L\<close> when every current
  record is the decoding of a line of its participant's file and every iterator holds
  lines of that file only.
\<close>

definition from_files :: "(string \<Rightarrow> string set) \<Rightarrow> merge_state \<Rightarrow> bool" where
  "from_files L st =
     (\<forall>k. (\<forall>cur. pdb st k = Some cur \<longrightarrow> (\<exists>line \<in> L k. decode_pdb line = Inr cur)) \<and>
          (\<forall>ls pe. iter_pdb st k = Some (ls, pe) \<longrightarrow> set ls \<subseteq> L k))"

section \<open>Example groups\<close>

text \<open>
  A nested archive of the group \<open>holdem.199601\<close> with the given primary lines, roster
  lines and participant files, and the extraction of that group from a top-level archive
  that holds it as \<open>IRCdata/holdem.199601.tgz\<close>.
\<close>

definition mk_group :: "string list \<Rightarrow> string list \<Rightarrow> (string \<times> string list) list \<Rightarrow> tar_group" where
  "mk_group hdb_lines hroster_lines pdb_files =
     [(''holdem/199601/hdb'', Some (hdb_lines, Exhausted)),
      (''holdem/199601/hroster'', Some (hroster_lines, Exhausted))] @
     map (\<lambda>pf. (''holdem/199601/pdb/pdb.'' @ fst pf, Some (snd pf, Exhausted))) pdb_files"

definition run_group :: "tar_group \<Rightarrow> exn + EventRecord list" where
  "run_group g = extract_single_group ''Linux'' ''IRCdata/holdem.199601.tgz''
                   (Some [(''IRCdata/holdem.199601.tgz'', Some (Tar g))])"

definition hdb_A :: string where
  "hdb_A = ''820830094 20 1163 2 2/20 2/40 2/80 2/80 Qc 4s 6s 5d 4d''"

definition hdb_B :: string where
  "hdb_B = ''820830100 20 1164 2 0/0 0/0 0/0 1/15''"

definition hroster_A :: string where
  "hroster_A = ''820830094 2 Jak num''"

definition hroster_B :: string where
  "hroster_B = ''820830100 2 Jak num''"

definition Jak_A :: string where
  "Jak_A = ''Jak 820830094 2 1 Bc kc kc k 850 40 80 7c Ac''"

definition num_A :: string where
  "num_A = ''num 820830094 2 2 Bk b b k 1420 40 0 9h Kh''"

definition Jak_B :: string where
  "Jak_B = ''Jak 820830100 2 2 Bf - - - 890 5 0''"

definition num_B :: string where
  "num_B = ''num 820830100 2 1 B - - - 1380 10 15''"

text \<open>
  A later hand that num plays alone; a line of Jak with a fold before the flop and two card
  tokens; two earlier lines of Jak and one after both hands.
\<close>

definition hdb_C :: string where
  "hdb_C = ''820830100 20 1164 1 0/0 0/0 0/0 1/15''"

definition hroster_C :: string where
  "hroster_C = ''820830100 1 num''"

definition num_C :: string where
  "num_C = ''num 820830100 1 1 B - - - 1380 10 15''"

definition Jak_F :: string where
  "Jak_F = ''Jak 820830094 2 1 Bf - - - 850 5 0 7c Ac''"

definition Jak_0 :: string where
  "Jak_0 = ''Jak 820830000 2 1 Bc kc kc k 850 40 80''"

definition Jak_1 :: string where
  "Jak_1 = ''Jak 820830050 2 1 Bf - - - 890 5 0''"

definition Jak_2 :: string where
  "Jak_2 = ''Jak 820830200 2 1 Bf - - - 890 5 0''"

text \<open>
  The state in which the merge loop of such a group starts: line 412 has read the first
  record of every participant.
\<close>

definition start_state :: "string list \<Rightarrow> (string \<times> string list) list \<Rightarrow> merge_state" where
  "start_state hroster_lines pdb_files =
     (case first_records (map (\<lambda>pf. (fst pf, (snd pf, Exhausted))) pdb_files) Map.empty Map.empty of
        Inr (pdb0, it0) \<Rightarrow>
          \<lparr> iter_hroster = (hroster_lines, Exhausted), pdb = pdb0, iter_pdb = it0 \<rparr>
      | Inl x \<Rightarrow>
          \<lparr> iter_hroster = (hroster_lines, Exhausted), pdb = Map.empty, iter_pdb = Map.empty \<rparr>)"

text \<open>The record that the module's docstring gives for the heads-up example.\<close>

definition hand_A :: EventRecord where
  "hand_A =
     \<lparr> hand_id = ''holdem_199601_820830094'',
       board = [''Qc'', ''4s'', ''6s'', ''5d'', ''4d''],
       dealer = 20, game = ''holdem'', hand_num = 1163, num_players = 2,
       players =
         [(''Jak'', \<lparr> total_bet = 40, bankroll = 850,
                      bets = [\<lparr> actions = ''Bc'', stage = ''p'' \<rparr>, \<lparr> actions = ''kc'', stage = ''f'' \<rparr>,
                              \<lparr> actions = ''kc'', stage = ''t'' \<rparr>, \<lparr> actions = ''k'', stage = ''r'' \<rparr>],
                      pocket_cards = [''7c'', ''Ac''], position = 1, total_win = 80 \<rparr>),
          (''num'', \<lparr> total_bet = 40, bankroll = 1420,
                      bets = [\<lparr> actions = ''Bk'', stage = ''p'' \<rparr>, \<lparr> actions = ''b'', stage = ''f'' \<rparr>,
                              \<lparr> actions = ''b'', stage = ''t'' \<rparr>, \<lparr> actions = ''k'', stage = ''r'' \<rparr>],
                      pocket_cards = [''9h'', ''Kh''], position = 2, total_win = 0 \<rparr>)],
       pots = [\<lparr> pot_num_players = 2, pot_stage = ''f'', pot_size = 20 \<rparr>,
               \<lparr> pot_num_players = 2, pot_stage = ''t'', pot_size = 40 \<rparr>,
               \<lparr> pot_num_players = 2, pot_stage = ''r'', pot_size = 80 \<rparr>,
               \<lparr> pot_num_players = 2, pot_stage = ''s'', pot_size = 80 \<rparr>] \<rparr>"

section \<open>The concrete scenario\<close>

text \<open>
  C5. Given the primary line \<open>820830094 20 1163 2 2/20 2/40 2/80 2/80 Qc 4s 6s 5d 4d\<close>, the
  roster line \<open>820830094 2 Jak num\<close> and the participant lines of Jak (actions
  \<open>Bc kc kc k\<close>, bankroll 850, total bet 40, total win 80, cards \<open>7c Ac\<close>) and num
  (\<open>Bk b b k\<close>, 1420, 40, 0, \<open>9h Kh\<close>), the extraction of the group returns exactly one
  record: board \<open>Qc 4s 6s 5d 4d\<close>, four pots of sizes 20, 40, 80, 80 tagged f, t, r, s with
  two participants each, and the two participants with the stated amounts, positions 1 and
  2, bets tagged p, f, t, r and both pocket cards.
\<close>

theorem concrete_scenario_one_record:
  "run_group (mk_group [hdb_A] [hroster_A] [(''Jak'', [Jak_A]), (''num'', [num_A])]) = Inr [hand_A]"
  by code_simp

section \<open>The cleanup path\<close>

text \<open>
  C10. Once the extraction has entered its member-extraction-and-merge phase, whatever
  exception leaves the body of the \<open>try\<close> statement, of any type, the phase returns the
  list of hands accumulated at that moment: the \<open>return\<close> of the cleanup path replaces the
  pending exception, and the caller never observes an exception from this phase.
\<close>

theorem cleanup_return_replaces_exception:
  "(\<forall>x hands. try_body sl folder_group game_type tar_group = (Raises x, hands)
       \<longrightarrow> extract_phase sl folder_group game_type tar_group = Inr hands)
   \<and> (\<forall>x. extract_phase sl folder_group game_type tar_group \<noteq> Inl x)"
  by (simp add: extract_phase_def finally_return_def split: prod.splits)

text \<open>
  An instance: the second candidate of the group has a count mismatch, the assertion of
  line 423 fails outside the handler of \<open>ValidationError\<close>, and the caller receives the
  hand merged before it.
\<close>

theorem cleanup_return_replaces_exception_witness:
  "try_body (CHR ''/'') ''holdem/199601'' ''holdem''
     (mk_group [hdb_A, hdb_B] [hroster_A, ''820830100 3 Jak num'']
        [(''Jak'', [Jak_A, Jak_B]), (''num'', [num_A, num_B])]) = (Raises AssertionError, [hand_A])
   \<and> extract_phase (CHR ''/'') ''holdem/199601'' ''holdem''
     (mk_group [hdb_A, hdb_B] [hroster_A, ''820830100 3 Jak num'']
        [(''Jak'', [Jak_A, Jak_B]), (''num'', [num_A, num_B])]) = Inr [hand_A]"
proof -
  have body: "try_body (CHR ''/'') ''holdem/199601'' ''holdem''
     (mk_group [hdb_A, hdb_B] [hroster_A, ''820830100 3 Jak num'']
        [(''Jak'', [Jak_A, Jak_B]), (''num'', [num_A, num_B])]) = (Raises AssertionError, [hand_A])"
    by code_simp
  from cleanup_return_replaces_exception
    [of "CHR ''/''" "''holdem/199601''" "''holdem''"
        "mk_group [hdb_A, hdb_B] [hroster_A, ''820830100 3 Jak num'']
           [(''Jak'', [Jak_A, Jak_B]), (''num'', [num_A, num_B])]"]
  show ?thesis using body by blast
qed

text \<open>
  Other exceptions that leave the body and are replaced in the same way: a malformed
  first line of a participant (\<open>ValidationError\<close> at line 412, outside the inner
  handler), a roster line of one token (\<open>IndexError\<close>), a group without its primary
  member (\<open>KeyError\<close>), and a participant member that is not a regular file
  (\<open>TypeError\<close>).
\<close>

lemma exceptions_of_other_types:
  "try_body (CHR ''/'') ''holdem/199601'' ''holdem''
     (mk_group [hdb_A] [hroster_A] [(''Jak'', [''Jak garbage'']), (''num'', [num_A])])
     = (Raises ValidationError, [])
   \<and> try_body (CHR ''/'') ''holdem/199601'' ''holdem''
     (mk_group [hdb_A, hdb_C] [hroster_A, ''820830100'']
        [(''Jak'', [Jak_A]), (''num'', [num_A, num_C])])
     = (Raises IndexError, [hand_A])
   \<and> try_body (CHR ''/'') ''holdem/199601'' ''holdem''
     [(''holdem/199601/hroster'', Some ([hroster_A], Exhausted))]
     = (Raises KeyError, [])
   \<and> try_body (CHR ''/'') ''holdem/199601'' ''holdem''
     (mk_group [hdb_A] [hroster_A] [] @ [(''holdem/199601/pdb/pdb.Jak'', None)])
     = (Raises TypeError, [])
   \<and> extract_phase (CHR ''/'') ''holdem/199601'' ''holdem''
     (mk_group [hdb_A, hdb_C] [hroster_A, ''820830100'']
        [(''Jak'', [Jak_A]), (''num'', [num_A, num_C])])
     = Inr [hand_A]"
  by code_simp

section \<open>Steps of the merge loop\<close>

lemma merge_loop_raise:
  "merge_step sl f g l st = (Raise x, st') \<Longrightarrow> x \<noteq> ValidationError
   \<Longrightarrow> merge_loop sl f g (l # ls) e st hands = (x, hands)"
  by simp

lemma merge_loop_skip:
  "merge_step sl f g l st = (Raise ValidationError, st')
   \<Longrightarrow> merge_loop sl f g (l # ls) e st hands = merge_loop sl f g ls e st' hands"
  by simp

lemma merge_loop_continue:
  "merge_step sl f g l st = (Continue, st')
   \<Longrightarrow> merge_loop sl f g (l # ls) e st hands = merge_loop sl f g ls e st' hands"
  by simp

lemma merge_loop_append:
  "merge_step sl f g l st = (Append h, st')
   \<Longrightarrow> merge_loop sl f g (l # ls) e st hands = merge_loop sl f g ls e st' (hands @ [h])"
  by simp

lemma merge_step_mismatch:
  assumes "decode_hdb l = Inr hdb"
    and "read_hroster (hdb_timestamp hdb) (fst (iter_hroster st)) (snd (iter_hroster st)) = (Inr hroster, rest)"
    and "hr_timestamp hroster = hdb_timestamp hdb"
    and "hr_num_players hroster \<noteq> hdb_num_players hdb"
  shows "merge_step sl f g l st = (Raise AssertionError, st\<lparr> iter_hroster := (rest, snd (iter_hroster st)) \<rparr>)"
  using assms by (simp add: merge_step_def)

lemma match_players_append:
  "match_players ts (ps @ qs) st pc =
     (case match_players ts ps st pc of
        (Matched c, st') \<Rightarrow> match_players ts qs st' c
      | other \<Rightarrow> other)"
  by (induction ps arbitrary: st pc)
     (auto split: option.splits prod.splits players_outcome.splits simp: Let_def)

lemma advance_lines_exhausted:
  "pdb_timestamp cur < ts \<Longrightarrow> \<forall>x \<in> set lines. \<exists>r. decode_pdb x = Inr r \<and> pdb_timestamp r < ts
   \<Longrightarrow> \<exists>cur'. advance_lines ts cur lines e = (Some (end_exn e), cur', [])"
  by (induction lines arbitrary: cur) auto

lemma advance_lines_bad:
  "pdb_timestamp cur < ts \<Longrightarrow> \<forall>x \<in> set pre. \<exists>r. decode_pdb x = Inr r \<and> pdb_timestamp r < ts
   \<Longrightarrow> decode_pdb bad = Inl x
   \<Longrightarrow> \<exists>cur'. advance_lines ts cur (pre @ bad # post) e = (Some x, cur', post)"
  by (induction pre arbitrary: cur) auto

lemma read_hroster_bad:
  "\<forall>x \<in> set pre. \<exists>r. decode_hroster x = Inr r \<and> hr_timestamp r < ts
   \<Longrightarrow> decode_hroster bad = Inl x
   \<Longrightarrow> read_hroster ts (pre @ bad # post) e = (Inl x, post)"
  by (induction pre) auto

section \<open>Synchronisation mismatch\<close>

text \<open>
  C1 (as the code has it). When the primary record and the roster record reached by the
  forward read have equal timestamps but unequal participant counts, the assertion of line
  423 fails; the handler of the loop catches \<open>ValidationError\<close> only, so the merge of the
  group ends at that candidate, and the hands emitted before it, unchanged, are the
  result of the group. No later primary record of the group is processed.
\<close>

theorem sync_mismatch_ends_group:
  assumes "decode_hdb l = Inr hdb"
    and "read_hroster (hdb_timestamp hdb) (fst (iter_hroster st)) (snd (iter_hroster st)) = (Inr hroster, rest)"
    and "hr_timestamp hroster = hdb_timestamp hdb"
    and "hr_num_players hroster \<noteq> hdb_num_players hdb"
  shows "merge_loop sl f g (l # ls) e st hands = (AssertionError, hands)"
  using merge_step_mismatch [OF assms, of sl f g] by simp

text \<open>An instance: the roster announces three participants, the primary record two.\<close>

theorem sync_mismatch_ends_group_witness:
  "merge_loop (CHR ''/'') ''holdem/199601'' ''holdem'' [hdb_A, hdb_B] Exhausted
     (start_state [''820830094 3 Jak num'', hroster_B]
        [(''Jak'', [Jak_A, Jak_B]), (''num'', [num_A, num_B])]) []
   = (AssertionError, [])"
proof -
  let ?st = "start_state [''820830094 3 Jak num'', hroster_B]
        [(''Jak'', [Jak_A, Jak_B]), (''num'', [num_A, num_B])]"
  let ?hdb = "projr (decode_hdb hdb_A)"
  let ?hr = "\<lparr> hr_timestamp = 820830094, hr_num_players = 3, hr_players = [''Jak'', ''num''] \<rparr>"
  have h1: "decode_hdb hdb_A = Inr ?hdb" by code_simp
  have h2: "read_hroster (hdb_timestamp ?hdb) (fst (iter_hroster ?st)) (snd (iter_hroster ?st))
              = (Inr ?hr, [hroster_B])" by code_simp
  have h3: "hr_timestamp ?hr = hdb_timestamp ?hdb" by code_simp
  have h4: "hr_num_players ?hr \<noteq> hdb_num_players ?hdb" by code_simp
  show ?thesis by (rule sync_mismatch_ends_group [OF h1 h2 h3 h4])
qed

text \<open>
  C1 as stated fails: the second candidate of this group matches in every stream (the
  group without the first candidate yields it), yet after the count mismatch of the first
  candidate nothing is emitted.
\<close>

theorem sync_mismatch_counterexample:
  "run_group (mk_group [hdb_A, hdb_B] [''820830094 3 Jak num'', hroster_B]
                [(''Jak'', [Jak_A, Jak_B]), (''num'', [num_A, num_B])]) = Inr []
   \<and> map hand_id (projr (run_group (mk_group [hdb_B] [hroster_B]
                [(''Jak'', [Jak_A, Jak_B]), (''num'', [num_A, num_B])])))
       = [''holdem_199601_820830100'']"
  by code_simp

lemma merge_step_player_raises:
  assumes "decode_hdb l = Inr hdb"
    and "read_hroster (hdb_timestamp hdb) (fst (iter_hroster st)) (snd (iter_hroster st)) = (Inr hroster, rest)"
    and "hr_timestamp hroster = hdb_timestamp hdb"
    and "hr_num_players hroster = hdb_num_players hdb"
    and "hr_players hroster = before @ player # after"
    and "match_players (hdb_timestamp hdb) before (st\<lparr> iter_hroster := (rest, snd (iter_hroster st)) \<rparr>) []
           = (Matched pc, st1)"
    and "pdb st1 player = Some cur"
    and "iter_pdb st1 player = Some (lines, pe)"
    and "advance_lines (hdb_timestamp hdb) cur lines pe = (Some x, cur', lines')"
  shows "merge_step sl f g l st =
           (Raise x, st1\<lparr> pdb := (pdb st1)(player \<mapsto> cur'),
                          iter_pdb := (iter_pdb st1)(player \<mapsto> (lines', pe)) \<rparr>)"
  using assms by (simp add: merge_step_def match_players_append advance_pdb_def)

section \<open>Exhausted participant stream\<close>

text \<open>
  What line 435 does when the stream of a listed participant ends: the current record is
  before the primary's timestamp and so is every remaining line, reading past the end
  raises \<open>StopIteration\<close>, the inner handler does not catch it, and the handler that
  ends the loop over the primary stream does. The merge of the group stops with the hands
  emitted so far.
\<close>

lemma exhausted_participant_ends_group:
  assumes "decode_hdb l = Inr hdb"
    and "read_hroster (hdb_timestamp hdb) (fst (iter_hroster st)) (snd (iter_hroster st)) = (Inr hroster, rest)"
    and "hr_timestamp hroster = hdb_timestamp hdb"
    and "hr_num_players hroster = hdb_num_players hdb"
    and "hr_players hroster = before @ player # after"
    and "match_players (hdb_timestamp hdb) before (st\<lparr> iter_hroster := (rest, snd (iter_hroster st)) \<rparr>) []
           = (Matched pc, st1)"
    and "pdb st1 player = Some cur"
    and "pdb_timestamp cur < hdb_timestamp hdb"
    and "iter_pdb st1 player = Some (lines, Exhausted)"
    and "\<forall>x \<in> set lines. \<exists>r. decode_pdb x = Inr r \<and> pdb_timestamp r < hdb_timestamp hdb"
  shows "merge_loop sl f g (l # ls) e st hands = (StopIteration, hands)"
proof -
  from advance_lines_exhausted [OF assms(8) assms(10), of Exhausted]
  obtain cur' where adv: "advance_lines (hdb_timestamp hdb) cur lines Exhausted = (Some StopIteration, cur', [])"
    by auto
  from merge_step_player_raises [OF assms(1-7) assms(9) adv, of sl f g]
  show ?thesis by simp
qed

text \<open>An instance: the file of Jak ends before the first hand of the group.\<close>

lemma exhausted_participant_ends_group_instance:
  "merge_loop (CHR ''/'') ''holdem/199601'' ''holdem'' [hdb_A, hdb_C] Exhausted
     (start_state [hroster_A, hroster_C] [(''Jak'', [Jak_0, Jak_1]), (''num'', [num_A, num_C])]) []
   = (StopIteration, [])"
proof -
  let ?st = "start_state [hroster_A, hroster_C] [(''Jak'', [Jak_0, Jak_1]), (''num'', [num_A, num_C])]"
  let ?hdb = "projr (decode_hdb hdb_A)"
  let ?hr = "\<lparr> hr_timestamp = 820830094, hr_num_players = 2, hr_players = [''Jak'', ''num''] \<rparr>"
  let ?cur = "projr (decode_pdb Jak_0)"
  let ?st1 = "?st\<lparr> iter_hroster := ([hroster_C], snd (iter_hroster ?st)) \<rparr>"
  have h1: "decode_hdb hdb_A = Inr ?hdb" by code_simp
  have h2: "read_hroster (hdb_timestamp ?hdb) (fst (iter_hroster ?st)) (snd (iter_hroster ?st))
              = (Inr ?hr, [hroster_C])" by code_simp
  have h3: "hr_timestamp ?hr = hdb_timestamp ?hdb" by code_simp
  have h4: "hr_num_players ?hr = hdb_num_players ?hdb" by code_simp
  have h5: "hr_players ?hr = [] @ ''Jak'' # [''num'']" by simp
  have h6: "match_players (hdb_timestamp ?hdb) [] ?st1 [] = (Matched [], ?st1)" by simp
  have h7: "pdb ?st1 ''Jak'' = Some ?cur" by code_simp
  have h8: "pdb_timestamp ?cur < hdb_timestamp ?hdb" by code_simp
  have h9: "iter_pdb ?st1 ''Jak'' = Some ([Jak_1], Exhausted)" by code_simp
  have d: "decode_pdb Jak_1 = Inr (projr (decode_pdb Jak_1))" by code_simp
  have t: "pdb_timestamp (projr (decode_pdb Jak_1)) < hdb_timestamp ?hdb" by code_simp
  have h10: "\<forall>x \<in> set [Jak_1]. \<exists>r. decode_pdb x = Inr r \<and> pdb_timestamp r < hdb_timestamp ?hdb"
    using d t by auto
  show ?thesis by (rule exhausted_participant_ends_group [OF h1 h2 h3 h4 h5 h6 h7 h8 h9 h10])
qed

text \<open>
  C2. The claim is that when the stream of a participant listed in the matching roster
  record is exhausted before the primary's timestamp, only that candidate is abandoned
  and later primary records of the group are still matched and emitted. The code does
  this for a participant that has no file (lines 429--433) and for one whose stream
  overshoots the timestamp (lines 436--440): both skip the one hand, and the later hand
  \<open>820830100\<close> is emitted. When the stream ends instead, the \<open>StopIteration\<close> of line 435
  leaves the loop through the handler of line 473, and the later hand, which matches in
  every stream (the group without the first candidate yields it), is lost.
\<close>

theorem exhausted_participant_drops_later_hands:
  "run_group (mk_group [hdb_A, hdb_C] [hroster_A, hroster_C]
                [(''Jak'', [Jak_0, Jak_1]), (''num'', [num_A, num_C])]) = Inr []
   \<and> map hand_id (projr (run_group (mk_group [hdb_A, hdb_C] [hroster_A, hroster_C]
                [(''num'', [num_A, num_C])])))
       = [''holdem_199601_820830100'']
   \<and> map hand_id (projr (run_group (mk_group [hdb_A, hdb_C] [hroster_A, hroster_C]
                [(''Jak'', [Jak_0, Jak_1, Jak_2]), (''num'', [num_A, num_C])])))
       = [''holdem_199601_820830100'']
   \<and> map hand_id (projr (run_group (mk_group [hdb_C] [hroster_C]
                [(''Jak'', [Jak_0, Jak_1]), (''num'', [num_A, num_C])])))
       = [''holdem_199601_820830100'']"
  by code_simp

section \<open>Malformed lines\<close>

lemma bad_primary_line:
  assumes "decode_hdb l = Inl ValidationError"
  shows "merge_loop sl f g (l # ls) e st hands = merge_loop sl f g ls e st hands"
  using assms by (simp add: merge_step_def)

lemma bad_roster_line:
  assumes "decode_hdb l = Inr hdb"
    and "fst (iter_hroster st) = pre @ bad # post"
    and "\<forall>x \<in> set pre. \<exists>r. decode_hroster x = Inr r \<and> hr_timestamp r < hdb_timestamp hdb"
    and "decode_hroster bad = Inl ValidationError"
  shows "merge_loop sl f g (l # ls) e st hands =
         merge_loop sl f g ls e (st\<lparr> iter_hroster := (post, snd (iter_hroster st)) \<rparr>) hands"
  using assms(1,2) read_hroster_bad [OF assms(3,4), of post "snd (iter_hroster st)"]
  by (simp add: merge_step_def)

lemma bad_participant_line:
  assumes "decode_hdb l = Inr hdb"
    and "read_hroster (hdb_timestamp hdb) (fst (iter_hroster st)) (snd (iter_hroster st)) = (Inr hroster, rest)"
    and "hr_timestamp hroster = hdb_timestamp hdb"
    and "hr_num_players hroster = hdb_num_players hdb"
    and "hr_players hroster = before @ player # after"
    and "match_players (hdb_timestamp hdb) before (st\<lparr> iter_hroster := (rest, snd (iter_hroster st)) \<rparr>) []
           = (Matched pc, st1)"
    and "pdb st1 player = Some cur"
    and "pdb_timestamp cur < hdb_timestamp hdb"
    and "iter_pdb st1 player = Some (pre @ bad # post, pe)"
    and "\<forall>x \<in> set pre. \<exists>r. decode_pdb x = Inr r \<and> pdb_timestamp r < hdb_timestamp hdb"
    and "decode_pdb bad = Inl ValidationError"
  shows "\<exists>st'. merge_loop sl f g (l # ls) e st hands = merge_loop sl f g ls e st' hands
               \<and> iter_pdb st' player = Some (post, pe)"
proof -
  from advance_lines_bad [OF assms(8) assms(10) assms(11), of post pe]
  obtain cur' where adv:
    "advance_lines (hdb_timestamp hdb) cur (pre @ bad # post) pe = (Some ValidationError, cur', post)"
    by auto
  from merge_step_player_raises [OF assms(1-7) assms(9) adv, of sl f g]
  show ?thesis by (intro exI [of _ "st1\<lparr> pdb := (pdb st1)(player \<mapsto> cur'),
                          iter_pdb := (iter_pdb st1)(player \<mapsto> (post, pe)) \<rparr>"]) simp
qed

text \<open>
  C4 (as the code has it). A line that fails validation is consumed. When it is a primary
  line, the merge continues with the next primary line in the same state. When it is a
  roster line met while reading forward to the primary's timestamp, or a participant line
  met while advancing a listed participant, the current primary record is abandoned
  without emitting, and the merge continues with the next primary record; the stream of the
  malformed line resumes after that line.
\<close>

theorem decode_failure_abandons_candidate:
  "(decode_hdb l = Inl ValidationError \<longrightarrow>
      merge_loop sl f g (l # ls) e st hands = merge_loop sl f g ls e st hands)
   \<and> (\<forall>hdb pre bad post.
        decode_hdb l = Inr hdb \<and> fst (iter_hroster st) = pre @ bad # post \<and>
        (\<forall>x \<in> set pre. \<exists>r. decode_hroster x = Inr r \<and> hr_timestamp r < hdb_timestamp hdb) \<and>
        decode_hroster bad = Inl ValidationError \<longrightarrow>
        merge_loop sl f g (l # ls) e st hands =
        merge_loop sl f g ls e (st\<lparr> iter_hroster := (post, snd (iter_hroster st)) \<rparr>) hands)
   \<and> (\<forall>hdb hroster rest before player after pc st1 cur pre bad post pe.
        decode_hdb l = Inr hdb \<and>
        read_hroster (hdb_timestamp hdb) (fst (iter_hroster st)) (snd (iter_hroster st)) = (Inr hroster, rest) \<and>
        hr_timestamp hroster = hdb_timestamp hdb \<and>
        hr_num_players hroster = hdb_num_players hdb \<and>
        hr_players hroster = before @ player # after \<and>
        match_players (hdb_timestamp hdb) before (st\<lparr> iter_hroster := (rest, snd (iter_hroster st)) \<rparr>) []
           = (Matched pc, st1) \<and>
        pdb st1 player = Some cur \<and> pdb_timestamp cur < hdb_timestamp hdb \<and>
        iter_pdb st1 player = Some (pre @ bad # post, pe) \<and>
        (\<forall>x \<in> set pre. \<exists>r. decode_pdb x = Inr r \<and> pdb_timestamp r < hdb_timestamp hdb) \<and>
        decode_pdb bad = Inl ValidationError \<longrightarrow>
        (\<exists>st'. merge_loop sl f g (l # ls) e st hands = merge_loop sl f g ls e st' hands
               \<and> iter_pdb st' player = Some (post, pe)))"
proof (intro conjI allI impI)
  assume "decode_hdb l = Inl ValidationError"
  then show "merge_loop sl f g (l # ls) e st hands = merge_loop sl f g ls e st hands"
    by (rule bad_primary_line)
next
  fix hdb pre bad post
  assume "decode_hdb l = Inr hdb \<and> fst (iter_hroster st) = pre @ bad # post \<and>
        (\<forall>x \<in> set pre. \<exists>r. decode_hroster x = Inr r \<and> hr_timestamp r < hdb_timestamp hdb) \<and>
        decode_hroster bad = Inl ValidationError"
  then show "merge_loop sl f g (l # ls) e st hands =
        merge_loop sl f g ls e (st\<lparr> iter_hroster := (post, snd (iter_hroster st)) \<rparr>) hands"
    using bad_roster_line by blast
next
  fix hdb hroster rest before player after pc st1 cur pre bad post pe
  assume "decode_hdb l = Inr hdb \<and>
        read_hroster (hdb_timestamp hdb) (fst (iter_hroster st)) (snd (iter_hroster st)) = (Inr hroster, rest) \<and>
        hr_timestamp hroster = hdb_timestamp hdb \<and>
        hr_num_players hroster = hdb_num_players hdb \<and>
        hr_players hroster = before @ player # after \<and>
        match_players (hdb_timestamp hdb) before (st\<lparr> iter_hroster := (rest, snd (iter_hroster st)) \<rparr>) []
           = (Matched pc, st1) \<and>
        pdb st1 player = Some cur \<and> pdb_timestamp cur < hdb_timestamp hdb \<and>
        iter_pdb st1 player = Some (pre @ bad # post, pe) \<and>
        (\<forall>x \<in> set pre. \<exists>r. decode_pdb x = Inr r \<and> pdb_timestamp r < hdb_timestamp hdb) \<and>
        decode_pdb bad = Inl ValidationError"
  then show "\<exists>st'. merge_loop sl f g (l # ls) e st hands = merge_loop sl f g ls e st' hands
               \<and> iter_pdb st' player = Some (post, pe)"
    using bad_participant_line [of l hdb st hroster rest before player after pc st1 cur pre bad post pe]
    by blast
qed


text \<open>Instances for a malformed primary line, roster line and participant line.\<close>

theorem decode_failure_abandons_candidate_witness:
  "merge_loop (CHR ''/'') ''holdem/199601'' ''holdem'' [''garbage'', hdb_A] Exhausted
     (start_state [hroster_A] [(''Jak'', [Jak_A]), (''num'', [num_A])]) [] = (StopIteration, [hand_A])
   \<and> map hand_id (snd (merge_loop (CHR ''/'') ''holdem/199601'' ''holdem'' [hdb_A, hdb_C] Exhausted
     (start_state [''garbage 2 Jak num'', hroster_A, hroster_C]
        [(''Jak'', [Jak_A]), (''num'', [num_A, num_C])]) [])) = [''holdem_199601_820830100'']
   \<and> merge_loop (CHR ''/'') ''holdem/199601'' ''holdem'' [hdb_A] Exhausted
     (start_state [hroster_A] [(''Jak'', [Jak_0, Jak_1, ''Jak garbage'', Jak_A]), (''num'', [num_A])]) []
       = (StopIteration, [])"
proof (intro conjI)
  let ?st = "start_state [hroster_A] [(''Jak'', [Jak_A]), (''num'', [num_A])]"
  have h: "decode_hdb ''garbage'' = Inl ValidationError" by code_simp
  have r: "merge_loop (CHR ''/'') ''holdem/199601'' ''holdem'' [hdb_A] Exhausted ?st [] = (StopIteration, [hand_A])"
    by code_simp
  from decode_failure_abandons_candidate
         [of "''garbage''" "CHR ''/''" "''holdem/199601''" "''holdem''" "[hdb_A]" Exhausted ?st "[]"] h r
  show "merge_loop (CHR ''/'') ''holdem/199601'' ''holdem'' [''garbage'', hdb_A] Exhausted ?st []
          = (StopIteration, [hand_A])"
    by simp
next
  let ?st = "start_state [''garbage 2 Jak num'', hroster_A, hroster_C]
        [(''Jak'', [Jak_A]), (''num'', [num_A, num_C])]"
  let ?hdb = "projr (decode_hdb hdb_A)"
  have h1: "decode_hdb hdb_A = Inr ?hdb" by code_simp
  have h2: "fst (iter_hroster ?st) = [] @ ''garbage 2 Jak num'' # [hroster_A, hroster_C]" by code_simp
  have h3: "\<forall>x \<in> set []. \<exists>r. decode_hroster x = Inr r \<and> hr_timestamp r < hdb_timestamp ?hdb" by simp
  have h4: "decode_hroster ''garbage 2 Jak num'' = Inl ValidationError" by code_simp
  have r: "map hand_id (snd (merge_loop (CHR ''/'') ''holdem/199601'' ''holdem'' [hdb_C] Exhausted
             (?st\<lparr> iter_hroster := ([hroster_A, hroster_C], snd (iter_hroster ?st)) \<rparr>) []))
           = [''holdem_199601_820830100'']"
    by code_simp
  from decode_failure_abandons_candidate
         [of hdb_A "CHR ''/''" "''holdem/199601''" "''holdem''" "[hdb_C]" Exhausted ?st "[]"] h1 h2 h3 h4
  have "merge_loop (CHR ''/'') ''holdem/199601'' ''holdem'' (hdb_A # [hdb_C]) Exhausted ?st [] =
        merge_loop (CHR ''/'') ''holdem/199601'' ''holdem'' [hdb_C] Exhausted
          (?st\<lparr> iter_hroster := ([hroster_A, hroster_C], snd (iter_hroster ?st)) \<rparr>) []"
    by blast
  with r show "map hand_id (snd (merge_loop (CHR ''/'') ''holdem/199601'' ''holdem'' [hdb_A, hdb_C] Exhausted ?st []))
          = [''holdem_199601_820830100'']"
    by simp
next
  let ?st = "start_state [hroster_A] [(''Jak'', [Jak_0, Jak_1, ''Jak garbage'', Jak_A]), (''num'', [num_A])]"
  let ?hdb = "projr (decode_hdb hdb_A)"
  let ?hr = "\<lparr> hr_timestamp = 820830094, hr_num_players = 2, hr_players = [''Jak'', ''num''] \<rparr>"
  let ?cur = "projr (decode_pdb Jak_0)"
  let ?st1 = "?st\<lparr> iter_hroster := ([], snd (iter_hroster ?st)) \<rparr>"
  have h1: "decode_hdb hdb_A = Inr ?hdb" by code_simp
  have h2: "read_hroster (hdb_timestamp ?hdb) (fst (iter_hroster ?st)) (snd (iter_hroster ?st))
              = (Inr ?hr, [])" by code_simp
  have h3: "hr_timestamp ?hr = hdb_timestamp ?hdb" by code_simp
  have h4: "hr_num_players ?hr = hdb_num_players ?hdb" by code_simp
  have h5: "hr_players ?hr = [] @ ''Jak'' # [''num'']" by simp
  have h6: "match_players (hdb_timestamp ?hdb) [] ?st1 [] = (Matched [], ?st1)" by simp
  have h7: "pdb ?st1 ''Jak'' = Some ?cur" by code_simp
  have h8: "pdb_timestamp ?cur < hdb_timestamp ?hdb" by code_simp
  have h9: "iter_pdb ?st1 ''Jak'' = Some ([Jak_1] @ ''Jak garbage'' # [Jak_A], Exhausted)" by code_simp
  have d: "decode_pdb Jak_1 = Inr (projr (decode_pdb Jak_1))" by code_simp
  have t: "pdb_timestamp (projr (decode_pdb Jak_1)) < hdb_timestamp ?hdb" by code_simp
  have h10: "\<forall>x \<in> set [Jak_1]. \<exists>r. decode_pdb x = Inr r \<and> pdb_timestamp r < hdb_timestamp ?hdb"
    using d t by auto
  have h11: "decode_pdb ''Jak garbage'' = Inl ValidationError" by code_simp
  from decode_failure_abandons_candidate
         [of hdb_A "CHR ''/''" "''holdem/199601''" "''holdem''" "[]" Exhausted ?st "[]"]
       h1 h2 h3 h4 h5 h6 h7 h8 h9 h10 h11
  have "\<exists>st'. merge_loop (CHR ''/'') ''holdem/199601'' ''holdem'' (hdb_A # []) Exhausted ?st [] =
              merge_loop (CHR ''/'') ''holdem/199601'' ''holdem'' [] Exhausted st' []
              \<and> iter_pdb st' ''Jak'' = Some ([Jak_A], Exhausted)"
    by blast
  then show "merge_loop (CHR ''/'') ''holdem/199601'' ''holdem'' [hdb_A] Exhausted ?st [] = (StopIteration, [])"
    by auto
qed

text \<open>
  C4 as stated fails: with a malformed roster line before the matching one, or a malformed
  line of Jak before the matching one, the primary record is not matched against the
  remaining well-formed lines and nothing is emitted; without the malformed line the hand
  is emitted.
\<close>

theorem decode_failure_counterexample:
  "run_group (mk_group [hdb_A] [''garbage 2 Jak num'', hroster_A]
                [(''Jak'', [Jak_A]), (''num'', [num_A])]) = Inr []
   \<and> run_group (mk_group [hdb_A] [hroster_A]
                [(''Jak'', [Jak_0, ''Jak garbage'', Jak_A]), (''num'', [num_A])]) = Inr []
   \<and> run_group (mk_group [hdb_A] [hroster_A]
                [(''Jak'', [Jak_0, Jak_A]), (''num'', [num_A])]) = Inr [hand_A]"
  by code_simp

section \<open>What the loop emits\<close>

lemma merge_loop_acc:
  "snd (merge_loop sl f g ls e st hands) = hands @ snd (merge_loop sl f g ls e st [])"
proof (induction ls arbitrary: st hands)
  case Nil
  show ?case by simp
next
  case (Cons l ls)
  obtain out st' where step: "merge_step sl f g l st = (out, st')" by (cases "merge_step sl f g l st")
  show ?case
  proof (cases out)
    case (Raise x)
    show ?thesis
    proof (cases "x = ValidationError")
      case True
      with step Raise have "\<And>hs. merge_loop sl f g (l # ls) e st hs = merge_loop sl f g ls e st' hs"
        by simp
      then show ?thesis using Cons.IH [of st' hands] by simp
    next
      case False
      with step Raise have "\<And>hs. merge_loop sl f g (l # ls) e st hs = (x, hs)" by simp
      then show ?thesis by simp
    qed
  next
    case Continue
    with step have "\<And>hs. merge_loop sl f g (l # ls) e st hs = merge_loop sl f g ls e st' hs"
      by simp
    then show ?thesis using Cons.IH [of st' hands] by simp
  next
    case (Append h)
    with step have "\<And>hs. merge_loop sl f g (l # ls) e st hs = merge_loop sl f g ls e st' (hs @ [h])"
      by simp
    then show ?thesis using Cons.IH [of st' "hands @ [h]"] Cons.IH [of st' "[h]"] by simp
  qed
qed

lemma merge_step_AppendD:
  assumes "merge_step sl f g l st = (Append h, st')"
  shows "\<exists>hdb hroster rest pc.
           decode_hdb l = Inr hdb \<and>
           read_hroster (hdb_timestamp hdb) (fst (iter_hroster st)) (snd (iter_hroster st)) = (Inr hroster, rest) \<and>
           hr_timestamp hroster = hdb_timestamp hdb \<and>
           hr_num_players hroster = hdb_num_players hdb \<and>
           match_players (hdb_timestamp hdb) (hr_players hroster)
              (st\<lparr> iter_hroster := (rest, snd (iter_hroster st)) \<rparr>) [] = (Matched pc, st') \<and>
           length (hr_players hroster) = length pc \<and>
           list_all (\<lambda>kv. pdb_timestamp (snd kv) = hdb_timestamp hdb) pc \<and>
           h = make_hand sl f g hdb pc"
  using assms
  by (auto simp: merge_step_def Let_def split: sum.splits prod.splits if_splits players_outcome.splits)

lemma merge_loop_emits:
  assumes "I st"
    and step: "\<And>l st out st'. I st \<Longrightarrow> merge_step sl f g l st = (out, st') \<Longrightarrow>
                 I st' \<and> (\<forall>h. out = Append h \<longrightarrow> Q h)"
    and "h \<in> set (snd (merge_loop sl f g ls e st hands))"
  shows "h \<in> set hands \<or> Q h"
  using assms(1,3)
proof (induction ls arbitrary: st hands)
  case Nil
  then show ?case by simp
next
  case (Cons l ls)
  obtain out st' where s: "merge_step sl f g l st = (out, st')" by (cases "merge_step sl f g l st")
  from step [OF Cons.prems(1) s] have I': "I st'" and Q: "\<forall>h. out = Append h \<longrightarrow> Q h" by auto
  show ?case
  proof (cases out)
    case (Raise x)
    with s Cons.prems(2) Cons.IH [OF I'] show ?thesis by (auto split: if_splits)
  next
    case Continue
    with s Cons.prems(2) Cons.IH [OF I'] show ?thesis by auto
  next
    case (Append h')
    with s Cons.prems(2) have "h \<in> set (snd (merge_loop sl f g ls e st' (hands @ [h'])))" by simp
    from Cons.IH [OF I' this] Q Append show ?thesis by auto
  qed
qed

section \<open>Pocket cards\<close>

lemma length_pdb_cards: "length (pdb_cards v) \<le> 2"
  by (cases "pdb_card1 v"; cases "pdb_card2 v") (simp_all add: pdb_cards_def)

lemma players_make_hand:
  "players (make_hand sl f g hdb pc) = map (\<lambda>(k, v). (k, player_entry v)) pc"
  by (simp add: make_hand_def)

text \<open>
  C6 (as the code has it). For every emitted EventRecord and every participant in it, the
  pocket-card list has length 0, 1 or 2: it holds the card fields of the participant's
  record that are present, and the second one is absent when the line has one card token.
\<close>

theorem pocket_cards_at_most_two:
  assumes "h \<in> set (snd (merge_loop sl f g ls e st []))"
    and "(k, v) \<in> set (players h)"
  shows "length (pocket_cards v) \<le> 2"
proof -
  let ?Q = "\<lambda>h. \<forall>kv \<in> set (players h). length (pocket_cards (snd kv)) \<le> 2"
  have step: "\<And>l st out st'. True \<Longrightarrow> merge_step sl f g l st = (out, st') \<Longrightarrow>
                 True \<and> (\<forall>h. out = Append h \<longrightarrow> ?Q h)"
  proof (intro conjI allI impI TrueI)
    fix l st out st' h
    assume "merge_step sl f g l st = (out, st')" and "out = Append h"
    then obtain hdb pc where "h = make_hand sl f g hdb pc"
      using merge_step_AppendD by blast
    then show "?Q h"
      by (auto simp: players_make_hand player_entry_def length_pdb_cards)
  qed
  from merge_loop_emits [where I = "\<lambda>_. True" and Q = ?Q, OF TrueI step assms(1)]
  have "?Q h" by simp
  with assms(2) show ?thesis by force
qed

text \<open>An instance: Jak in the hand of the heads-up example.\<close>

theorem pocket_cards_at_most_two_witness:
  "hand_A \<in> set (snd (merge_loop (CHR ''/'') ''holdem/199601'' ''holdem'' [hdb_A] Exhausted
       (start_state [hroster_A] [(''Jak'', [Jak_A]), (''num'', [num_A])]) []))
   \<and> (''Jak'', snd (hd (players hand_A))) \<in> set (players hand_A)
   \<and> length (pocket_cards (snd (hd (players hand_A)))) \<le> 2"
proof -
  have h1: "hand_A \<in> set (snd (merge_loop (CHR ''/'') ''holdem/199601'' ''holdem'' [hdb_A] Exhausted
       (start_state [hroster_A] [(''Jak'', [Jak_A]), (''num'', [num_A])]) []))"
    by code_simp
  have h2: "(''Jak'', snd (hd (players hand_A))) \<in> set (players hand_A)"
    by code_simp
  from pocket_cards_at_most_two [OF h1 h2] h1 h2 show ?thesis by blast
qed

text \<open>
  C6 as stated fails: a participant line with one card token after the amounts is
  accepted, and the emitted record carries a single pocket card.
\<close>

theorem single_pocket_card_counterexample:
  "map (\<lambda>h. map (\<lambda>kv. (fst kv, pocket_cards (snd kv))) (players h))
     (projr (run_group (mk_group [hdb_A] [hroster_A]
        [(''Jak'', [''Jak 820830094 2 1 Bc kc kc k 850 40 80 7c'']), (''num'', [num_A])])))
   = [[(''Jak'', [''7c'']), (''num'', [''9h'', ''Kh''])]]"
  by code_simp


section \<open>Players and roster\<close>











text \<open>
  The browser asserts for every hand that the number of players equals \<open>num_players\<close>
  (\<^verbatim>\<open>browse.py\<close>, line 116). The roster decoder does not compare the length of the
  participant list with the announced count, so the extractor can emit a hand on which
  that assertion fails.
\<close>

lemma roster_length_not_validated:
  "map (\<lambda>h. (num_players h, map fst (players h)))
     (projr (run_group (mk_group [''820830094 20 1163 3 2/20 2/40 2/80 2/80 Qc 4s 6s 5d 4d'']
        [''820830094 3 Jak num''] [(''Jak'', [Jak_A]), (''num'', [num_A])])))
   = [(3, [''Jak'', ''num''])]"
  by code_simp

section \<open>Order of the emitted records\<close>

lemma digit_char_numerals:
  "digit_char 0 = CHR ''0''" "digit_char 1 = CHR ''1''" "digit_char 2 = CHR ''2''"
  "digit_char 3 = CHR ''3''" "digit_char 4 = CHR ''4''" "digit_char 5 = CHR ''5''"
  "digit_char 6 = CHR ''6''" "digit_char 7 = CHR ''7''" "digit_char 8 = CHR ''8''"
  "digit_char 9 = CHR ''9''" "digit_char (Suc 0) = CHR ''1''"
  by code_simp+

lemma digit_char_cases:
  "d < 10 \<Longrightarrow> is_digit (digit_char d) \<and> digit_val (digit_char d) = int d"
proof -
  assume "d < 10"
  then have "d = 0 \<or> d = 1 \<or> d = 2 \<or> d = 3 \<or> d = 4 \<or> d = 5 \<or> d = 6 \<or> d = 7 \<or> d = 8 \<or> d = 9"
    by arith
  then show ?thesis
    by (elim disjE) (simp_all add: digit_char_numerals digit_val_def is_digit_def)
qed

lemma int_of_digits_snoc:
  "int_of_digits (xs @ [c]) = 10 * int_of_digits xs + digit_val c"
  by (simp add: int_of_digits_def)

lemma str_nat_digits: "list_all is_digit (str_nat n) \<and> int_of_digits (str_nat n) = int n"
proof (induction n rule: str_nat.induct)
  case (1 n)
  show ?case
  proof (cases "n < 10")
    case True
    then have s: "str_nat n = [digit_char n]" by (subst str_nat.simps) simp
    from digit_char_cases [OF True] show ?thesis
      by (simp add: s int_of_digits_def)
  next
    case False
    then have s: "str_nat n = str_nat (n div 10) @ [digit_char (n mod 10)]"
      by (subst str_nat.simps) simp
    have m: "n mod 10 < 10" by simp
    have a: "10 * int (n div 10) + int (n mod 10) = int n" by presburger
    from digit_char_cases [OF m] "1.IH" [OF False] a show ?thesis
      by (simp add: s int_of_digits_snoc)
  qed
qed

lemma not_digit_SLASH: "\<not> is_digit (SLASH system)"
  by (simp add: SLASH_def is_digit_def)

lemma replace_char_absent: "old \<notin> set s \<Longrightarrow> replace_char old new s = s"
  by (induction s) (auto simp: replace_char_def)

lemma replace_char_append:
  "replace_char old new (a @ b) = replace_char old new a @ replace_char old new b"
  by (simp add: replace_char_def)

lemma hand_timestamp_make_hand:
  assumes "0 \<le> hdb_timestamp hdb" and "\<not> is_digit sl"
  shows "hand_timestamp (make_hand sl f g hdb pc) = hdb_timestamp hdb"
proof -
  let ?ds = "str_nat (nat (hdb_timestamp hdb))"
  from str_nat_digits [of "nat (hdb_timestamp hdb)"] assms(1)
  have dig: "list_all is_digit ?ds" and val: "int_of_digits ?ds = hdb_timestamp hdb" by auto
  from dig assms(2) have "sl \<notin> set ?ds" by (auto simp: list_all_iff)
  then have r: "replace_char sl ''_'' ?ds = ?ds" by (rule replace_char_absent)
  have id: "hand_id (make_hand sl f g hdb pc) = replace_char sl ''_'' f @ CHR ''_'' # ?ds"
    using assms(1) r
    by (simp add: make_hand_def make_id_def str_int_def replace_char_append)
       (simp add: replace_char_def)
  have nd: "\<not> is_digit (CHR ''_'')" by (simp add: is_digit_def)
  have "takeWhile is_digit (rev ?ds @ CHR ''_'' # rev (replace_char sl ''_'' f)) = rev ?ds"
    using dig nd by (simp add: takeWhile_append2 list_all_iff takeWhile_tail)
  then show ?thesis by (simp add: hand_timestamp_def id val)
qed

lemma decode_hdb_Timestamp: "decode_hdb l = Inr r \<Longrightarrow> Timestamp (hdb_timestamp r)"
  by (auto simp: decode_hdb_def HdbRecord_init_def split: list.splits option.splits if_splits)

lemma sorted_subseq: "subseq xs ys \<Longrightarrow> sorted ys \<Longrightarrow> sorted (xs :: int list)"
proof (induction rule: list_emb.induct)
  case (list_emb_Nil ys)
  show ?case by simp
next
  case (list_emb_Cons xs ys y)
  then show ?case by simp
next
  case (list_emb_Cons2 x y xs ys)
  from list_emb_Cons2.hyps(2) have "set xs \<subseteq> set ys" by (rule list_emb_set [THEN subsetI]) auto
  with list_emb_Cons2 show ?case by auto
qed

lemma subseq_hdb_timestamps_Cons:
  "subseq xs (hdb_timestamps ls) \<Longrightarrow> subseq xs (hdb_timestamps (l # ls))"
  by (cases "decode_hdb l") auto

lemma merge_loop_timestamps_subseq:
  assumes "\<not> is_digit sl"
  shows "subseq (map hand_timestamp (snd (merge_loop sl f g ls e st []))) (hdb_timestamps ls)"
proof (induction ls arbitrary: st)
  case Nil
  show ?case by simp
next
  case (Cons l ls)
  obtain out st' where step: "merge_step sl f g l st = (out, st')" by (cases "merge_step sl f g l st")
  show ?case
  proof (cases out)
    case (Raise x)
    show ?thesis
    proof (cases "x = ValidationError")
      case True
      with step Raise have "merge_loop sl f g (l # ls) e st [] = merge_loop sl f g ls e st' []"
        by simp
      with Cons.IH [of st'] show ?thesis by (simp only: subseq_hdb_timestamps_Cons)
    next
      case False
      with step Raise have "merge_loop sl f g (l # ls) e st [] = (x, [])" by simp
      then show ?thesis by simp
    qed
  next
    case Continue
    with step have "merge_loop sl f g (l # ls) e st [] = merge_loop sl f g ls e st' []"
      by simp
    with Cons.IH [of st'] show ?thesis by (simp only: subseq_hdb_timestamps_Cons)
  next
    case (Append h)
    with step have s: "merge_step sl f g l st = (Append h, st')" by simp
    then have "merge_loop sl f g (l # ls) e st [] = merge_loop sl f g ls e st' [h]" by simp
    then have out: "snd (merge_loop sl f g (l # ls) e st []) = h # snd (merge_loop sl f g ls e st' [])"
      using merge_loop_acc [of sl f g ls e st' "[h]"] by simp
    from merge_step_AppendD [OF s] obtain hdb pc where
      d: "decode_hdb l = Inr hdb" and h: "h = make_hand sl f g hdb pc" by blast
    from decode_hdb_Timestamp [OF d] have "0 \<le> hdb_timestamp hdb" by (simp add: Timestamp_def)
    from hand_timestamp_make_hand [OF this assms] h
    have t: "hand_timestamp h = hdb_timestamp hdb" by simp
    from d have "hdb_timestamps (l # ls) = hdb_timestamp hdb # hdb_timestamps ls" by simp
    with out t Cons.IH [of st'] show ?thesis by simp
  qed
qed

text \<open>
  C9. When the timestamps of the group's primary stream are non-decreasing, the records
  emitted for the group have non-decreasing timestamps: each emitted record carries the
  timestamp of its primary record, and the emitted timestamps are a subsequence of the
  primary stream's timestamps. The roster and participant streams need no assumption, so
  the property holds in particular when all input streams are non-decreasing.
\<close>

theorem emitted_timestamps_nondecreasing:
  assumes "sorted (hdb_timestamps ls)"
  shows "sorted (map hand_timestamp (snd (merge_loop (SLASH system) f g ls e st [])))
         \<and> subseq (map hand_timestamp (snd (merge_loop (SLASH system) f g ls e st [])))
                  (hdb_timestamps ls)"
proof -
  have s: "subseq (map hand_timestamp (snd (merge_loop (SLASH system) f g ls e st [])))
                  (hdb_timestamps ls)"
    by (rule merge_loop_timestamps_subseq [OF not_digit_SLASH])
  from sorted_subseq [OF s assms] s show ?thesis by simp
qed

text \<open>An instance: two hands, with a malformed primary line between them.\<close>

theorem emitted_timestamps_nondecreasing_witness:
  "sorted (hdb_timestamps [hdb_A, ''garbage'', hdb_C])
   \<and> map hand_timestamp (snd (merge_loop (SLASH ''Linux'') ''holdem/199601'' ''holdem''
        [hdb_A, ''garbage'', hdb_C] Exhausted
        (start_state [hroster_A, hroster_C] [(''Jak'', [Jak_A]), (''num'', [num_A, num_C])]) []))
      = [820830094, 820830100]
   \<and> sorted (map hand_timestamp (snd (merge_loop (SLASH ''Linux'') ''holdem/199601'' ''holdem''
        [hdb_A, ''garbage'', hdb_C] Exhausted
        (start_state [hroster_A, hroster_C] [(''Jak'', [Jak_A]), (''num'', [num_A, num_C])]) [])))"
proof -
  have h1: "sorted (hdb_timestamps [hdb_A, ''garbage'', hdb_C])" by code_simp
  have v: "map hand_timestamp (snd (merge_loop (SLASH ''Linux'') ''holdem/199601'' ''holdem''
        [hdb_A, ''garbage'', hdb_C] Exhausted
        (start_state [hroster_A, hroster_C] [(''Jak'', [Jak_A]), (''num'', [num_A, num_C])]) []))
      = [820830094, 820830100]" by code_simp
  from emitted_timestamps_nondecreasing [OF h1] h1 v show ?thesis by blast
qed

section \<open>Group identifiers\<close>

lemma unrecognized_category_empty:
  assumes "endswith name_group ''.tgz''"
    and "rsplit1 (SLASH system) name_group = [dir, fname_group]"
    and "takeWhile (\<lambda>c. c \<noteq> CHR ''.'') fname_group \<notin> set VALID_GAME_TYPES"
  shows "extract_single_group system name_group (Some tar_in) = Inr []"
  using assms by (simp add: extract_single_group_def Let_def)

lemma name_without_separator_raises:
  assumes "endswith name_group ''.tgz''"
    and "SLASH system \<notin> set name_group"
  shows "extract_single_group system name_group (Some tar_in) = Inl UnboundLocalError"
  using assms by (simp add: extract_single_group_def rsplit1_def Let_def)

text \<open>
  C8. The claim is that single-group extraction returns a list for every group identifier
  and never raises to the caller, so that only a failure to open the top-level archive is
  fatal to a run. The code breaks it for an identifier that ends in \<open>.tgz\<close> and has no
  path separator (a member at the root of the archive): line 360 logs the failed split and
  goes on, line 363 reads the unassigned \<open>fname_group\<close> and raises outside every
  \<open>try\<close>, whether the category is recognised or not, and the run ends with the exception.
  Member names of a tar archive are written with \<open>/\<close>, so that on the host where
  \<open>SLASH\<close> is the backslash the same happens for a member inside a directory.
\<close>

theorem group_name_without_separator_raises:
  "extract_single_group ''Linux'' ''holdem.199601.tgz''
     (Some [(''holdem.199601.tgz'',
             Some (Tar (mk_group [hdb_A] [hroster_A] [(''Jak'', [Jak_A]), (''num'', [num_A])])))])
     = Inl UnboundLocalError
   \<and> extract_single_group ''Linux'' ''notes.199601.tgz''
     (Some [(''notes.199601.tgz'',
             Some (Tar (mk_group [hdb_A] [hroster_A] [(''Jak'', [Jak_A]), (''num'', [num_A])])))])
     = Inl UnboundLocalError
   \<and> iter_hands ''Linux''
     (Some [(''holdem.199601.tgz'',
             Some (Tar (mk_group [hdb_A] [hroster_A] [(''Jak'', [Jak_A]), (''num'', [num_A])])))])
     = (Some UnboundLocalError, [])
   \<and> extract_single_group ''Windows'' ''IRCdata/holdem.199601.tgz''
     (Some [(''IRCdata/holdem.199601.tgz'',
             Some (Tar (mk_group [hdb_A] [hroster_A] [(''Jak'', [Jak_A]), (''num'', [num_A])])))])
     = Inl UnboundLocalError"
  by code_simp


section \<open>Where the participants' entries come from\<close>

lemma from_files_iter_hroster [simp]:
  "from_files L (st\<lparr> iter_hroster := x \<rparr>) = from_files L st"
  by (simp add: from_files_def)

lemma advance_lines_from:
  "advance_lines ts cur ls e = (x, cur', ls') \<Longrightarrow> \<exists>line \<in> L. decode_pdb line = Inr cur
   \<Longrightarrow> set ls \<subseteq> L \<Longrightarrow> (\<exists>line \<in> L. decode_pdb line = Inr cur') \<and> set ls' \<subseteq> L"
proof (induction ls arbitrary: cur)
  case Nil
  then show ?case by (auto split: if_splits)
next
  case (Cons l ls)
  show ?case
  proof (cases "pdb_timestamp cur < ts")
    case False
    with Cons.prems show ?thesis by auto
  next
    case True
    show ?thesis
    proof (cases "decode_pdb l")
      case (Inl y)
      with True Cons.prems show ?thesis by auto
    next
      case (Inr r)
      with True Cons.prems(1) have a: "advance_lines ts r ls e = (x, cur', ls')" by simp
      from Inr Cons.prems(3) have b: "\<exists>line \<in> L. decode_pdb line = Inr r" by auto
      from Cons.prems(3) have c: "set ls \<subseteq> L" by simp
      from Cons.IH [OF a b c] show ?thesis .
    qed
  qed
qed

lemma advance_pdb_from:
  assumes "from_files L st" and "pdb st p = Some cur"
    and "advance_pdb ts cur (iter_pdb st p) = (x, cur', it')"
  shows "from_files L (st\<lparr> pdb := (pdb st)(p \<mapsto> cur'), iter_pdb := (iter_pdb st)(p := it') \<rparr>)
         \<and> (\<exists>line \<in> L p. decode_pdb line = Inr cur')"
proof -
  from assms(1,2) have c: "\<exists>line \<in> L p. decode_pdb line = Inr cur" by (auto simp: from_files_def)
  have "(\<exists>line \<in> L p. decode_pdb line = Inr cur') \<and> (\<forall>ls pe. it' = Some (ls, pe) \<longrightarrow> set ls \<subseteq> L p)"
  proof (cases "iter_pdb st p")
    case None
    with assms(3) c show ?thesis by (auto simp: advance_pdb_def)
  next
    case (Some s)
    obtain ls e where s: "s = (ls, e)" by (cases s)
    from assms(1) Some s have sub: "set ls \<subseteq> L p" by (auto simp: from_files_def)
    obtain ls' where a: "advance_lines ts cur ls e = (x, cur', ls')" and it: "it' = Some (ls', e)"
      using assms(3) Some s by (auto simp: advance_pdb_def split: prod.splits)
    from advance_lines_from [OF a c sub] it show ?thesis by auto
  qed
  with assms(1) show ?thesis by (auto simp: from_files_def)
qed

lemma set_dict_set: "set (dict_set k v d) \<subseteq> insert (k, v) (set d)"
  by (induction d) auto

lemma match_players_from:
  assumes "from_files L st"
    and "\<forall>kv \<in> set pc. \<exists>line \<in> L (fst kv). decode_pdb line = Inr (snd kv)"
    and "match_players ts ps st pc = (out, st')"
  shows "from_files L st' \<and>
         (\<forall>pc'. out = Matched pc' \<longrightarrow>
            (\<forall>kv \<in> set pc'. \<exists>line \<in> L (fst kv). decode_pdb line = Inr (snd kv)))"
  using assms
proof (induction ps arbitrary: st pc)
  case Nil
  then show ?case by auto
next
  case (Cons p ps)
  show ?case
  proof (cases "pdb st p")
    case None
    with Cons.prems show ?thesis by auto
  next
    case (Some cur)
    obtain x cur' it' where adv: "advance_pdb ts cur (iter_pdb st p) = (x, cur', it')"
      by (cases "advance_pdb ts cur (iter_pdb st p)")
    let ?st1 = "st\<lparr> pdb := (pdb st)(p \<mapsto> cur'), iter_pdb := (iter_pdb st)(p := it') \<rparr>"
    from advance_pdb_from [OF Cons.prems(1) Some adv]
    have I1: "from_files L ?st1" and c': "\<exists>line \<in> L p. decode_pdb line = Inr cur'" by auto
    show ?thesis
    proof (cases x)
      case (Some ex)
      with \<open>pdb st p = Some cur\<close> adv Cons.prems(3) I1 show ?thesis by (auto simp: Let_def)
    next
      case None
      show ?thesis
      proof (cases "pdb_timestamp cur' > ts")
        case True
        with None \<open>pdb st p = Some cur\<close> adv Cons.prems(3) I1 show ?thesis by (auto simp: Let_def)
      next
        case False
        with None \<open>pdb st p = Some cur\<close> adv Cons.prems(3)
        have rec: "match_players ts ps ?st1 (dict_set p cur' pc) = (out, st')"
          by (simp add: Let_def)
        have pc1: "\<forall>kv \<in> set (dict_set p cur' pc). \<exists>line \<in> L (fst kv). decode_pdb line = Inr (snd kv)"
        proof
          fix kv assume "kv \<in> set (dict_set p cur' pc)"
          with set_dict_set [of p cur' pc] have "kv = (p, cur') \<or> kv \<in> set pc" by auto
          then show "\<exists>line \<in> L (fst kv). decode_pdb line = Inr (snd kv)"
            using Cons.prems(2) c' by auto
        qed
        from Cons.IH [OF I1 pc1 rec] show ?thesis .
      qed
    qed
  qed
qed

lemma merge_step_from:
  assumes "from_files L st" and "merge_step sl f g l st = (out, st')"
  shows "from_files L st' \<and>
         (\<forall>h. out = Append h \<longrightarrow>
            (\<forall>kv \<in> set (players h). \<exists>line \<in> L (fst kv). \<exists>r.
                decode_pdb line = Inr r \<and> snd kv = player_entry r))"
proof (cases "decode_hdb l")
  case (Inl x)
  with assms show ?thesis by (auto simp: merge_step_def)
next
  case (Inr hdb)
  obtain r rest where rd:
    "read_hroster (hdb_timestamp hdb) (fst (iter_hroster st)) (snd (iter_hroster st)) = (r, rest)"
    by (cases "read_hroster (hdb_timestamp hdb) (fst (iter_hroster st)) (snd (iter_hroster st))")
  let ?st1 = "st\<lparr> iter_hroster := (rest, snd (iter_hroster st)) \<rparr>"
  have I1: "from_files L ?st1" using assms(1) by simp
  show ?thesis
  proof (cases r)
    case (Inl x)
    with assms(2) Inr rd I1 show ?thesis by (auto simp: merge_step_def)
  next
    case r: (Inr hroster)
    obtain mo st2 where mp:
      "match_players (hdb_timestamp hdb) (hr_players hroster) ?st1 [] = (mo, st2)"
      by (cases "match_players (hdb_timestamp hdb) (hr_players hroster) ?st1 []")
    have e: "\<forall>kv \<in> set []. \<exists>line \<in> L (fst kv). decode_pdb line = Inr (snd kv)" by simp
    from match_players_from [OF I1 e mp]
    have I2: "from_files L st2"
      and M: "\<forall>pc'. mo = Matched pc' \<longrightarrow>
            (\<forall>kv \<in> set pc'. \<exists>line \<in> L (fst kv). decode_pdb line = Inr (snd kv))" by auto
    from assms(2) Inr rd r mp I1 I2 have "from_files L st'"
      by (auto simp: merge_step_def Let_def split: if_splits players_outcome.splits)
    moreover have "\<forall>h. out = Append h \<longrightarrow>
            (\<forall>kv \<in> set (players h). \<exists>line \<in> L (fst kv). \<exists>r.
                decode_pdb line = Inr r \<and> snd kv = player_entry r)"
    proof (intro allI impI)
      fix h assume "out = Append h"
      with assms(2) Inr rd r mp obtain pc where "mo = Matched pc" and h: "h = make_hand sl f g hdb pc"
        by (auto simp: merge_step_def Let_def split: if_splits players_outcome.splits)
      with M have "\<forall>kv \<in> set pc. \<exists>line \<in> L (fst kv). decode_pdb line = Inr (snd kv)" by simp
      then show "\<forall>kv \<in> set (players h). \<exists>line \<in> L (fst kv). \<exists>r.
                decode_pdb line = Inr r \<and> snd kv = player_entry r"
        by (fastforce simp: h make_hand_def)
    qed
    ultimately show ?thesis by simp
  qed
qed

lemma first_records_from:
  assumes "first_records items p i = Inr (p', i')"
    and "from_files L \<lparr> iter_hroster = r, pdb = p, iter_pdb = i \<rparr>"
    and "\<forall>kf \<in> set items. set (fst (snd kf)) \<subseteq> L (fst kf)"
  shows "from_files L \<lparr> iter_hroster = r, pdb = p', iter_pdb = i' \<rparr>"
  using assms
proof (induction items arbitrary: p i)
  case Nil
  then show ?case by simp
next
  case (Cons kf items)
  obtain k v where kf: "kf = (k, v)" by (cases kf)
  from Cons.prems(1) kf obtain l ls rec where
    v: "fst v = l # ls" and d: "decode_pdb l = Inr rec"
    and rest: "first_records items (p(k \<mapsto> rec)) (i(k \<mapsto> (ls, snd v))) = Inr (p', i')"
    by (auto split: list.splits sum.splits)
  from Cons.prems(3) kf v have sub: "l \<in> L k" "set ls \<subseteq> L k" by auto
  have "from_files L \<lparr> iter_hroster = r, pdb = p(k \<mapsto> rec), iter_pdb = i(k \<mapsto> (ls, snd v)) \<rparr>"
    using Cons.prems(2) sub d by (auto simp: from_files_def)
  moreover from Cons.prems(3) have "\<forall>kf \<in> set items. set (fst (snd kf)) \<subseteq> L (fst kf)" by simp
  ultimately show ?case using Cons.IH [OF rest] by blast
qed

lemma extractfile_mem: "extractfile tar name = Inr x \<Longrightarrow> (name, x) \<in> set tar"
  by (auto simp: extractfile_def split: option.splits dest: map_of_SomeD)

lemma open_pdb_members:
  assumes "open_pdb d tar names items = Inr items'"
    and "\<forall>kf \<in> set items. \<exists>fname. (fname, Some (snd kf)) \<in> set tar \<and> split_last d fname 0 None = Some (fst kf)"
  shows "\<forall>kf \<in> set items'. \<exists>fname. (fname, Some (snd kf)) \<in> set tar \<and> split_last d fname 0 None = Some (fst kf)"
  using assms
proof (induction names arbitrary: items)
  case Nil
  then show ?case by simp
next
  case (Cons fname names)
  show ?case
  proof (cases "split_last d fname 0 None")
    case None
    with Cons.prems(1) have "open_pdb d tar names items = Inr items'" by simp
    from Cons.IH [OF this Cons.prems(2)] show ?thesis .
  next
    case (Some player)
    with Cons.prems(1) obtain fl where
      x: "extractfile tar fname = Inr (Some fl)"
      and rest: "open_pdb d tar names (dict_set player fl items) = Inr items'"
      by (auto split: sum.splits option.splits)
    from extractfile_mem [OF x] have m: "(fname, Some fl) \<in> set tar" .
    have "\<forall>kf \<in> set (dict_set player fl items).
            \<exists>fname. (fname, Some (snd kf)) \<in> set tar \<and> split_last d fname 0 None = Some (fst kf)"
    proof
      fix kf assume "kf \<in> set (dict_set player fl items)"
      with set_dict_set [of player fl items] have "kf = (player, fl) \<or> kf \<in> set items" by auto
      then show "\<exists>fname. (fname, Some (snd kf)) \<in> set tar \<and> split_last d fname 0 None = Some (fst kf)"
        using Cons.prems(2) m Some by auto
    qed
    from Cons.IH [OF rest this] show ?thesis .
  qed
qed

lemma pdb_cards_tokens:
  assumes "decode_pdb line = Inr r"
  shows "pdb_cards r = take 2 (drop 11 (filter (\<lambda>s. s \<noteq> []) (split line)))"
proof -
  let ?args = "filter (\<lambda>s. s \<noteq> []) (split line)"
  from assms obtain p ts n pos a1 a2 a3 a4 b tb tw rest where
    args: "?args = p # ts # n # pos # a1 # a2 # a3 # a4 # b # tb # tw # rest"
    and c: "pdb_card1 r = nth_opt rest 0" "pdb_card2 r = nth_opt rest 1"
    by (auto simp: decode_pdb_def PdbRecord_init_def split: list.splits option.splits if_splits)
  have "not_none [nth_opt rest 0, nth_opt rest 1] = take 2 rest"
    by (cases rest; cases "tl rest") (auto simp: nth_opt_def)
  with args c show ?thesis by (simp add: pdb_cards_def)
qed

text \<open>
  C7 (as the code has it). For every emitted EventRecord and every participant in it, the
  participant's entry is derived from a record decoded from a line of that participant's
  file, and the pocket-card list is the list of the card tokens of that line, the twelfth
  and thirteenth tokens as far as they are present, whatever the four action strings are.
  So the list of a participant who folds is empty exactly when the line carries no token
  after the amount fields.
\<close>

theorem pocket_cards_are_line_tokens:
  assumes "h \<in> set (snd (try_body sl folder_group game_type tar_group))"
    and "(k, v) \<in> set (players h)"
  shows "\<exists>fname f line r.
           (fname, Some f) \<in> set tar_group \<and>
           split_last (''pdb'' @ [sl] @ ''pdb.'') fname 0 None = Some k \<and>
           line \<in> set (fst f) \<and> decode_pdb line = Inr r \<and> v = player_entry r \<and>
           pocket_cards v = take 2 (drop 11 (filter (\<lambda>s. s \<noteq> []) (split line)))"
proof -
  let ?d = "''pdb'' @ [sl] @ ''pdb.''"
  let ?L = "\<lambda>k. {line. \<exists>fname f. (fname, Some f) \<in> set tar_group \<and>
                        split_last ?d fname 0 None = Some k \<and> line \<in> set (fst f)}"
  from assms(1) obtain file_hdb file_hroster items pdb0 it0 where
    op: "open_pdb ?d tar_group (getnames tar_group) [] = Inr items"
    and fr: "first_records items Map.empty Map.empty = Inr (pdb0, it0)"
    and h: "h \<in> set (snd (merge_loop sl folder_group game_type (fst file_hdb) (snd file_hdb)
               \<lparr> iter_hroster = file_hroster, pdb = pdb0, iter_pdb = it0 \<rparr> []))"
  proof -
    assume that: "\<And>items pdb0 it0 file_hdb file_hroster.
      open_pdb ?d tar_group (getnames tar_group) [] = Inr items \<Longrightarrow>
      first_records items Map.empty Map.empty = Inr (pdb0, it0) \<Longrightarrow>
      h \<in> set (snd (merge_loop sl folder_group game_type (fst file_hdb) (snd file_hdb)
               \<lparr> iter_hroster = file_hroster, pdb = pdb0, iter_pdb = it0 \<rparr> [])) \<Longrightarrow> thesis"
    show thesis
    proof (cases "extractfile tar_group (folder_group @ [sl] @ ''hdb'')")
      case (Inl x)
      with assms(1) show ?thesis by (simp add: try_body_def)
    next
      case hdb: (Inr fo)
      show ?thesis
      proof (cases fo)
        case None
        with hdb assms(1) show ?thesis by (simp add: try_body_def)
      next
        case (Some file_hdb)
        show ?thesis
        proof (cases "extractfile tar_group (folder_group @ [sl] @ ''hroster'')")
          case (Inl x)
          with hdb Some assms(1) show ?thesis by (simp add: try_body_def)
        next
          case hr: (Inr ro)
          show ?thesis
          proof (cases ro)
            case None
            with hr hdb Some assms(1) show ?thesis by (simp add: try_body_def)
          next
            case r: (Some file_hroster)
            show ?thesis
            proof (cases "open_pdb ?d tar_group (getnames tar_group) []")
              case (Inl x)
              with r hr hdb Some assms(1) show ?thesis by (simp add: try_body_def)
            next
              case op: (Inr items)
              show ?thesis
              proof (cases "first_records items Map.empty Map.empty")
                case (Inl x)
                with op r hr hdb Some assms(1) show ?thesis by (simp add: try_body_def)
              next
                case (Inr pi)
                obtain pdb0 it0 where pi: "pi = (pdb0, it0)" by (cases pi)
                from Inr pi op r hr hdb Some assms(1)
                have "h \<in> set (snd (merge_loop sl folder_group game_type (fst file_hdb) (snd file_hdb)
                        \<lparr> iter_hroster = file_hroster, pdb = pdb0, iter_pdb = it0 \<rparr> []))"
                  by (simp add: try_body_def split: prod.splits)
                with that op Inr pi show ?thesis by blast
              qed
            qed
          qed
        qed
      qed
    qed
  qed
  have "\<forall>kf \<in> set ([] :: (string \<times> stream) list).
          \<exists>fname. (fname, Some (snd kf)) \<in> set tar_group \<and> split_last ?d fname 0 None = Some (fst kf)"
    by simp
  from open_pdb_members [OF op this]
  have mem: "\<forall>kf \<in> set items. \<exists>fname. (fname, Some (snd kf)) \<in> set tar_group \<and>
               split_last ?d fname 0 None = Some (fst kf)" .
  have items: "\<forall>kf \<in> set items. set (fst (snd kf)) \<subseteq> ?L (fst kf)"
  proof (intro ballI subsetI)
    fix kf x assume kf: "kf \<in> set items" and x: "x \<in> set (fst (snd kf))"
    from mem kf obtain fname where
      "(fname, Some (snd kf)) \<in> set tar_group" "split_last ?d fname 0 None = Some (fst kf)"
      by blast
    with x show "x \<in> ?L (fst kf)" by blast
  qed
  have "from_files ?L \<lparr> iter_hroster = file_hroster, pdb = Map.empty, iter_pdb = Map.empty \<rparr>"
    by (simp add: from_files_def)
  from first_records_from [OF fr this items]
  have I0: "from_files ?L \<lparr> iter_hroster = file_hroster, pdb = pdb0, iter_pdb = it0 \<rparr>" .
  let ?Q = "\<lambda>h. \<forall>kv \<in> set (players h). \<exists>line \<in> ?L (fst kv). \<exists>r.
                decode_pdb line = Inr r \<and> snd kv = player_entry r"
  have step: "\<And>l s out s'. from_files ?L s \<Longrightarrow> merge_step sl folder_group game_type l s = (out, s')
                 \<Longrightarrow> from_files ?L s' \<and> (\<forall>h. out = Append h \<longrightarrow> ?Q h)"
    by (rule merge_step_from)
  from merge_loop_emits [where I = "from_files ?L" and Q = ?Q, OF I0 step h]
  have "?Q h" by simp
  with assms(2) obtain line r where
    l: "line \<in> ?L k" and d: "decode_pdb line = Inr r" and v: "v = player_entry r"
    by fastforce
  from l obtain fname f where
    m: "(fname, Some f) \<in> set tar_group" "split_last ?d fname 0 None = Some k" "line \<in> set (fst f)"
    by blast
  have "pocket_cards v = take 2 (drop 11 (filter (\<lambda>s. s \<noteq> []) (split line)))"
    by (simp add: v player_entry_def pdb_cards_tokens [OF d])
  with m d v show ?thesis by blast
qed

text \<open>An instance: Jak folds before the flop and his line ends with two card tokens.\<close>

theorem pocket_cards_are_line_tokens_witness:
  "hd (snd (try_body (CHR ''/'') ''holdem/199601'' ''holdem''
         (mk_group [hdb_A] [hroster_A] [(''Jak'', [Jak_F]), (''num'', [num_A])])))
     \<in> set (snd (try_body (CHR ''/'') ''holdem/199601'' ''holdem''
         (mk_group [hdb_A] [hroster_A] [(''Jak'', [Jak_F]), (''num'', [num_A])])))
   \<and> (''Jak'', snd (hd (players (hd (snd (try_body (CHR ''/'') ''holdem/199601'' ''holdem''
         (mk_group [hdb_A] [hroster_A] [(''Jak'', [Jak_F]), (''num'', [num_A])])))))))
     \<in> set (players (hd (snd (try_body (CHR ''/'') ''holdem/199601'' ''holdem''
         (mk_group [hdb_A] [hroster_A] [(''Jak'', [Jak_F]), (''num'', [num_A])])))))
   \<and> (\<exists>fname f line r.
         (fname, Some f) \<in> set (mk_group [hdb_A] [hroster_A] [(''Jak'', [Jak_F]), (''num'', [num_A])]) \<and>
         split_last (''pdb'' @ [CHR ''/''] @ ''pdb.'') fname 0 None = Some ''Jak'' \<and>
         line \<in> set (fst f) \<and> decode_pdb line = Inr r \<and>
         snd (hd (players (hd (snd (try_body (CHR ''/'') ''holdem/199601'' ''holdem''
           (mk_group [hdb_A] [hroster_A] [(''Jak'', [Jak_F]), (''num'', [num_A])])))))) = player_entry r \<and>
         pocket_cards (snd (hd (players (hd (snd (try_body (CHR ''/'') ''holdem/199601'' ''holdem''
           (mk_group [hdb_A] [hroster_A] [(''Jak'', [Jak_F]), (''num'', [num_A])])))))))
           = take 2 (drop 11 (filter (\<lambda>s. s \<noteq> []) (split line))))"
proof -
  let ?g = "mk_group [hdb_A] [hroster_A] [(''Jak'', [Jak_F]), (''num'', [num_A])]"
  let ?hs = "snd (try_body (CHR ''/'') ''holdem/199601'' ''holdem'' ?g)"
  have h1: "hd ?hs \<in> set ?hs" by code_simp
  have h2: "(''Jak'', snd (hd (players (hd ?hs)))) \<in> set (players (hd ?hs))" by code_simp
  from pocket_cards_are_line_tokens [OF h1 h2] h1 h2 show ?thesis by blast
qed

text \<open>
  C7 as stated fails: Jak's action strings are \<open>Bf - - -\<close>, a fold before the flop, and
  his line carries the tokens \<open>7c Ac\<close> after the amounts; the emitted record has both as
  his pocket cards.
\<close>

theorem folded_pocket_cards_counterexample:
  "map (\<lambda>h. map (\<lambda>kv. (fst kv, map actions (bets (snd kv)), pocket_cards (snd kv))) (players h))
     (projr (run_group (mk_group [hdb_A] [hroster_A] [(''Jak'', [Jak_F]), (''num'', [num_A])])))
   = [[(''Jak'', [''Bf'', ''-'', ''-'', ''-''], [''7c'', ''Ac'']),
       (''num'', [''Bk'', ''b'', ''b'', ''k''], [''9h'', ''Kh''])]]"
  by code_simp

end
